theory Spec2Isabelle
  imports Main "HOL-Library.Word"
begin

section \<open>JavaScript values used by \<open>src/nextjs/lib/pcd.ts\<close>\<close>

text \<open>
  A \<open>bigint\<close> is an unbounded integer, modelled as \<open>int\<close>. A string is a \<open>char list\<close>.

  An element of a JavaScript array is either a value or \<open>undefined\<close> (a slot of
  \<open>new Array(n)\<close> that was never assigned reads as \<open>undefined\<close>): an array of strings
  is a list of \<open>string option\<close>, with \<open>None\<close> for \<open>undefined\<close>.
\<close>

type_synonym bigint = int

type_synonym js_array = "string option list"

text \<open>\<open>BigInt.prototype.toString()\<close>: the decimal digits, most significant first,
  after a minus sign for a negative value.\<close>

definition digit_char :: "int \<Rightarrow> char" where
  "digit_char d = ''0123456789'' ! nat d"

function digits :: "int \<Rightarrow> string" where
  "digits n = (if n < 10 then [digit_char n] else digits (n div 10) @ [digit_char (n mod 10)])"
  by pat_completeness auto
termination
  by (relation "measure nat") auto

declare digits.simps [simp del]

definition BigInt_toString :: "bigint \<Rightarrow> string" where
  "BigInt_toString i = (if i < 0 then CHR ''-'' # digits (- i) else digits i)"

text \<open>
  A \<open>number\<close> is a double. A finite non-zero one is given the way the language
  standard reads it for printing (\<open>Number::toString\<close>): its sign and the integers \<open>s\<close>
  and \<open>n\<close> for which the absolute value is \<open>s * 10 ^ (n - k)\<close>, where \<open>k\<close> is the number
  of decimal digits of \<open>s\<close> and \<open>k\<close> is as small as possible. The integer 1700000000000
  is \<open>Num False 17 13\<close>, 1.5 is \<open>Num False 15 1\<close> and \<open>1e21\<close> is \<open>Num False 1 22\<close>. Both
  zeros print alike and are one value here.
\<close>

datatype number = NaN | PlusInfinity | MinusInfinity | Zero | Num bool nat int

text \<open>
  \<open>Number.prototype.toString()\<close>, radix 10, as the standard defines it: with \<open>n\<close> from
  -5 to 21 the digits are written out, padded with zeros (\<open>n \<ge> k\<close>), or with a decimal
  point inside (\<open>0 < n < k\<close>) or after \<open>0.\<close> and \<open>-n\<close> zeros (\<open>n \<le> 0\<close>); outside that
  range the exponent form is used.
\<close>

definition Number_toString_abs :: "nat \<Rightarrow> int \<Rightarrow> string" where
  "Number_toString_abs s n =
     (let ds = digits (int s); k = int (length ds)
      in if - 5 \<le> n \<and> n \<le> 21
         then if n \<ge> k then ds @ replicate (nat (n - k)) CHR ''0''
              else if n > 0 then take (nat n) ds @ ''.'' @ drop (nat n) ds
              else ''0.'' @ replicate (nat (- n)) CHR ''0'' @ ds
         else let exponent = (if n < 0 then ''-'' else ''+'') @ digits \<bar>n - 1\<bar>
              in if k = 1 then ds @ ''e'' @ exponent
                 else take 1 ds @ ''.'' @ drop 1 ds @ ''e'' @ exponent)"

definition Number_toString :: "number \<Rightarrow> string" where
  "Number_toString x =
     (case x of
        NaN \<Rightarrow> ''NaN''
      | PlusInfinity \<Rightarrow> ''Infinity''
      | MinusInfinity \<Rightarrow> ''-Infinity''
      | Zero \<Rightarrow> ''0''
      | Num negative s n \<Rightarrow>
          (if negative then CHR ''-'' # Number_toString_abs s n else Number_toString_abs s n))"

text \<open>\<open>new Array(n)\<close>, \<open>a[i] = v\<close> (an assignment past the end extends the array) and
  \<open>a.push(v)\<close>.\<close>

definition new_Array :: "nat \<Rightarrow> js_array" where
  "new_Array n = replicate n None"

definition array_set :: "js_array \<Rightarrow> nat \<Rightarrow> string \<Rightarrow> js_array" where
  "array_set a i v =
     (if i < length a then a[i := Some v]
      else a @ replicate (i - length a) None @ [Some v])"

definition push :: "js_array \<Rightarrow> string \<Rightarrow> js_array" where
  "push a v = a @ [Some v]"

text \<open>\<open>x || d\<close> on an optional string: \<open>undefined\<close> and the empty string are falsy.\<close>

definition or_else :: "string option \<Rightarrow> string \<Rightarrow> string" where
  "or_else x d = (case x of None \<Rightarrow> d | Some s \<Rightarrow> if s = [] then d else s)"

text \<open>
  An exception is a value: \<open>Error message\<close> is the \<open>new Error(message)\<close> the file itself
  throws, and \<open>Thrown what\<close> is whatever an imported function threw. Nothing in the file
  catches either, so the first one ends the call: \<open>and_then\<close> runs the rest of a
  function only on a value.
\<close>

datatype error = Error string | Thrown string

definition and_then :: "error + 'a \<Rightarrow> ('a \<Rightarrow> error + 'b) \<Rightarrow> error + 'b" where
  "and_then m f = (case m of Inl e \<Rightarrow> Inl e | Inr x \<Rightarrow> f x)"

section \<open>Imported functions\<close>

text \<open>
  \<open>booleanToBigInt\<close>, \<open>hexToBigInt\<close>, \<open>numberToBigInt\<close> and \<open>uuidToBigInt\<close> come from
  the package \<open>@pcd/util\<close> and \<open>sha256\<close> from \<open>js-sha256\<close>; their code is not part of
  the file. They are parameters of the model. The three conversions from a string or a
  number may throw instead of returning (\<open>Inl\<close>, with what was thrown); \<open>booleanToBigInt\<close>
  and \<open>sha256\<close> have a value on each of the two booleans and on every string.
  \<open>sha256\<close> returns the hexadecimal rendering of a 256-bit digest, first byte first, and
  the file only reads it back with \<open>BigInt('0x' + ...)\<close>: the digest is a \<open>256 word\<close> and
  that reading is \<open>uint\<close>.
\<close>

record pcd_util =
  booleanToBigInt :: "bool \<Rightarrow> bigint"
  hexToBigInt :: "string \<Rightarrow> string + bigint"
  numberToBigInt :: "number \<Rightarrow> string + bigint"
  uuidToBigInt :: "string \<Rightarrow> string + bigint"
  sha256 :: "string \<Rightarrow> 256 word"

text \<open>\<open>f(x).toString()\<close> for a conversion \<open>f\<close> that may throw.\<close>

definition toString_of :: "string + bigint \<Rightarrow> error + string" where
  "toString_of r = (case r of Inl what \<Rightarrow> Inl (Thrown what) | Inr b \<Rightarrow> Inr (BigInt_toString b))"

text \<open>
  The claim of a \<open>ZKEdDSAEventTicketPCD\<close>, with every optional field as an \<open>option\<close>
  (\<open>None\<close> for \<open>undefined\<close>). The type is declared in the imported package; the
  fields are typed by their use in the file: \<open>attendeeSemaphoreId\<close>, \<open>nullifierHash\<close>
  and \<open>watermark\<close> are pushed as they are onto an array of strings, the signer is a pair
  of strings, and \<open>externalNullifier\<close>, read only through \<open>toString()\<close>, is held as the
  string that call returns.
\<close>

record partial_ticket =
  ticketId :: "string option"
  eventId :: "string option"
  productId :: "string option"
  timestampConsumed :: "number option"
  timestampSigned :: "number option"
  attendeeSemaphoreId :: "string option"
  isConsumed :: "bool option"
  isRevoked :: "bool option"
  ticketCategory :: "number option"
  attendeeEmail :: "string option"
  attendeeName :: "string option"

record ZKEdDSAEventTicketPCDClaim =
  partialTicket :: partial_ticket
  watermark :: string
  signer :: "string \<times> string"
  validEventIds :: "string list option"
  externalNullifier :: "string option"
  nullifierHash :: "string option"

section \<open>The encoder\<close>

definition BABY_JUB_NEGATIVE_ONE :: bigint where
  "BABY_JUB_NEGATIVE_ONE =
     21888242871839275222246405745257275088548364400416034343698204186575808495616"

definition VALID_EVENT_IDS_MAX_LEN :: nat where
  "VALID_EVENT_IDS_MAX_LEN = 20"

definition generateSnarkMessageHash :: "'a pcd_util_scheme \<Rightarrow> string \<Rightarrow> bigint" where
  "generateSnarkMessageHash L signal = drop_bit 8 (uint (sha256 L signal))"

definition STATIC_TICKET_PCD_NULLIFIER :: "'a pcd_util_scheme \<Rightarrow> bigint" where
  "STATIC_TICKET_PCD_NULLIFIER L =
     generateSnarkMessageHash L ''dummy-nullifier-for-eddsa-event-ticket-pcds''"

text \<open>The error of \<open>snarkInputForValidEventIds\<close>, with the message the source builds
  (the number it prints is the length of the list it was given; the length of an array
  is an integer below \<open>2 ^ 32\<close>, which prints as its digits).\<close>

definition CapacityExceeded :: "nat \<Rightarrow> error" where
  "CapacityExceeded n =
     Error (''validEventIds for a ZKEdDSAEventTicketPCD can have up to 100 entries.  '' @
            BigInt_toString (int n) @ '' given.'')"

text \<open>The first loop, \<open>for (const validId of validEventIds)\<close>, on the counter \<open>i\<close> and
  the array, ended by the first \<open>uuidToBigInt\<close> that throws; the second,
  \<open>for (; i < VALID_EVENT_IDS_MAX_LEN; ++i)\<close>.\<close>

fun fill_ids ::
  "'a pcd_util_scheme \<Rightarrow> string list \<Rightarrow> nat \<Rightarrow> js_array \<Rightarrow> error + nat \<times> js_array" where
  "fill_ids L [] i snarkIds = Inr (i, snarkIds)"
| "fill_ids L (validId # rest) i snarkIds =
     and_then (toString_of (uuidToBigInt L validId))
       (\<lambda>s. fill_ids L rest (i + 1) (array_set snarkIds i s))"

function pad_ids :: "nat \<Rightarrow> js_array \<Rightarrow> js_array" where
  "pad_ids i snarkIds =
     (if i < VALID_EVENT_IDS_MAX_LEN
      then pad_ids (i + 1) (array_set snarkIds i (BigInt_toString BABY_JUB_NEGATIVE_ONE))
      else snarkIds)"
  by pat_completeness auto
termination
  by (relation "measure (\<lambda>(i, a). VALID_EVENT_IDS_MAX_LEN - i)") auto

declare pad_ids.simps [simp del]

definition snarkInputForValidEventIds ::
  "'a pcd_util_scheme \<Rightarrow> string list option \<Rightarrow> error + js_array" where
  "snarkInputForValidEventIds L ids_arg =
     (let ids = (case ids_arg of None \<Rightarrow> [] | Some given \<Rightarrow> given)
      in if length ids > VALID_EVENT_IDS_MAX_LEN
         then Inl (CapacityExceeded (length ids))
         else and_then (fill_ids L ids 0 (new_Array VALID_EVENT_IDS_MAX_LEN))
                (\<lambda>(i, snarkIds). Inr (pad_ids i snarkIds)))"

text \<open>\<open>for (const eventId of ...) ret.push(eventId)\<close> pushes the elements one by
  one, as they are read.\<close>

fun push_each :: "js_array \<Rightarrow> js_array \<Rightarrow> js_array" where
  "push_each ret [] = ret"
| "push_each ret (e # rest) = push_each (ret @ [e]) rest"

text \<open>The pushes of \<open>publicSignalsFromClaim\<close> in the order of the source; a push whose
  argument calls a conversion that may throw is an \<open>and_then\<close>.\<close>

definition publicSignalsFromClaim ::
  "'a pcd_util_scheme \<Rightarrow> ZKEdDSAEventTicketPCDClaim \<Rightarrow> error + js_array" where
  "publicSignalsFromClaim L claim =
     (let t = partialTicket claim;
          ret = [];
          negOne = BigInt_toString BABY_JUB_NEGATIVE_ONE
      in
      and_then (case ticketId t of None \<Rightarrow> Inr negOne
                | Some v \<Rightarrow> toString_of (uuidToBigInt L v)) (\<lambda>s.
      let ret = push ret s in
      and_then (case eventId t of None \<Rightarrow> Inr negOne
                | Some v \<Rightarrow> toString_of (uuidToBigInt L v)) (\<lambda>s.
      let ret = push ret s in
      and_then (case productId t of None \<Rightarrow> Inr negOne
                | Some v \<Rightarrow> toString_of (uuidToBigInt L v)) (\<lambda>s.
      let ret = push ret s;
          ret = push ret (case timestampConsumed t of None \<Rightarrow> negOne
                          | Some v \<Rightarrow> Number_toString v);
          ret = push ret (case timestampSigned t of None \<Rightarrow> negOne
                          | Some v \<Rightarrow> Number_toString v);
          ret = push ret (or_else (attendeeSemaphoreId t) negOne);
          ret = push ret (case isConsumed t of None \<Rightarrow> negOne
                          | Some v \<Rightarrow> BigInt_toString (booleanToBigInt L v));
          ret = push ret (case isRevoked t of None \<Rightarrow> negOne
                          | Some v \<Rightarrow> BigInt_toString (booleanToBigInt L v)) in
      and_then (case ticketCategory t of None \<Rightarrow> Inr negOne
                | Some v \<Rightarrow> toString_of (numberToBigInt L v)) (\<lambda>s.
      let ret = push ret s;
          ret = push ret (case attendeeEmail t of None \<Rightarrow> negOne
                          | Some v \<Rightarrow> BigInt_toString (generateSnarkMessageHash L v));
          ret = push ret (case attendeeName t of None \<Rightarrow> negOne
                          | Some v \<Rightarrow> BigInt_toString (generateSnarkMessageHash L v));
          ret = push ret negOne;
          ret = push ret (or_else (nullifierHash claim) negOne) in
      and_then (toString_of (hexToBigInt L (fst (signer claim)))) (\<lambda>s.
      let ret = push ret s in
      and_then (toString_of (hexToBigInt L (snd (signer claim)))) (\<lambda>s.
      let ret = push ret s in
      and_then (snarkInputForValidEventIds L (validEventIds claim)) (\<lambda>eventIds.
      let ret = push_each ret eventIds;
          ret = push ret (if validEventIds claim \<noteq> None then ''1'' else ''0'');
          ret = push ret (or_else (externalNullifier claim)
                            (BigInt_toString (STATIC_TICKET_PCD_NULLIFIER L)));
          ret = push ret (watermark claim)
      in Inr ret))))))))"

section \<open>The frontend check\<close>

definition isETHBerlinPublicKey :: "string \<times> string \<Rightarrow> bool" where
  "isETHBerlinPublicKey sg =
     (fst sg = ''1ebfb986fbac5113f8e2c72286fe9362f8e7d211dbc68227a468d7b919e75003'' \<and>
      snd sg = ''10ec38f11baacad5535525bbe8e343074a483c051aa1616266f3b1df3fb7d204'')"

text \<open>
  \<open>ZKEdDSAEventTicketPCDPackage\<close> is imported: its \<open>deserialize\<close> and \<open>verify\<close> are
  parameters, on any type \<open>'r\<close> of serialized input and any type \<open>'p\<close> of proofs, and
  each may throw (reject) instead of returning. The function is \<open>async\<close> with two
  awaited calls in sequence and no handler: the model gives the lines written with
  \<open>console.error\<close> and how the promise settles, \<open>Inl\<close> when it rejects with what was
  thrown, \<open>Inr\<close> with the value when it resolves, \<open>None\<close> for the \<open>undefined\<close> of a bare
  \<open>return\<close>. In the third test the watermark is read before \<open>hexToBigInt\<close> is called.
\<close>

record 'p ZKEdDSAEventTicketPCD =
  pcd_claim :: ZKEdDSAEventTicketPCDClaim
  pcd_proof :: 'p

record ('r, 'p) pcd_package =
  deserialize :: "'r \<Rightarrow> string + 'p ZKEdDSAEventTicketPCD"
  verify :: "'p ZKEdDSAEventTicketPCD \<Rightarrow> string + bool"

definition verifyProofFrontend ::
  "'a pcd_util_scheme \<Rightarrow> ('r, 'p) pcd_package \<Rightarrow> 'r \<Rightarrow> string \<Rightarrow>
     string list \<times> (error + bool option)" where
  "verifyProofFrontend L P pcd_arg address =
     (case deserialize P pcd_arg of
        Inl what \<Rightarrow> ([], Inl (Thrown what))
      | Inr deserializedPCD \<Rightarrow>
          (case verify P deserializedPCD of
             Inl what \<Rightarrow> ([], Inl (Thrown what))
           | Inr verified \<Rightarrow>
               if \<not> verified
               then ([''[ERROR Frontend] ZK ticket PCD is not valid''], Inr None)
               else if \<not> isETHBerlinPublicKey (signer (pcd_claim deserializedPCD))
               then ([''[ERROR Frontend] PCD is not signed by ETHBerlin''], Inr None)
               else (case toString_of (hexToBigInt L address) of
                       Inl e \<Rightarrow> ([], Inl e)
                     | Inr s \<Rightarrow>
                         if watermark (pcd_claim deserializedPCD) \<noteq> s
                         then ([''[ERROR Frontend] PCD watermark doesn't match''], Inr None)
                         else ([], Inr (Some True)))))"

section \<open>Conditions on a claim\<close>

text \<open>
  The conversions the encoder calls before it reaches the event ids (for the three
  identifiers and the ticket category when present, and for the two halves of the
  signer) and those it calls on the event ids: \<open>head_conversions_return\<close> and
  \<open>ids_return\<close> say that none of them throws.
\<close>

definition field_returns :: "('x \<Rightarrow> string + bigint) \<Rightarrow> 'x option \<Rightarrow> bool" where
  "field_returns f x = (case x of None \<Rightarrow> True | Some v \<Rightarrow> \<not> isl (f v))"

definition head_conversions_return ::
  "'a pcd_util_scheme \<Rightarrow> ZKEdDSAEventTicketPCDClaim \<Rightarrow> bool" where
  "head_conversions_return L c =
     (field_returns (uuidToBigInt L) (ticketId (partialTicket c)) \<and>
      field_returns (uuidToBigInt L) (eventId (partialTicket c)) \<and>
      field_returns (uuidToBigInt L) (productId (partialTicket c)) \<and>
      field_returns (numberToBigInt L) (ticketCategory (partialTicket c)) \<and>
      \<not> isl (hexToBigInt L (fst (signer c))) \<and>
      \<not> isl (hexToBigInt L (snd (signer c))))"

definition given_ids :: "string list option \<Rightarrow> string list" where
  "given_ids ids_arg = (case ids_arg of None \<Rightarrow> [] | Some ids \<Rightarrow> ids)"

definition ids_return :: "'a pcd_util_scheme \<Rightarrow> string list option \<Rightarrow> bool" where
  "ids_return L ids_arg = list_all (\<lambda>u. \<not> isl (uuidToBigInt L u)) (given_ids ids_arg)"

text \<open>
  A decimal string is what \<open>BigInt.prototype.toString()\<close> prints: one or more digits,
  after a minus sign or not. A number prints as one when it is zero or an integer below
  \<open>10 ^ 21\<close> in absolute value (\<open>k \<le> n \<le> 21\<close>). \<open>decimal_inputs\<close> says that the
  timestamps of a claim, when present, are such numbers, and that the strings the encoder
  passes through (attendeeSemaphoreId, nullifierHash, externalNullifier when present,
  and the watermark) are decimal strings.
\<close>

definition is_digit :: "char \<Rightarrow> bool" where
  "is_digit c = (c \<in> set ''0123456789'')"

definition decimal_string :: "string \<Rightarrow> bool" where
  "decimal_string s =
     (case s of
        [] \<Rightarrow> False
      | c # rest \<Rightarrow> if c = CHR ''-'' then rest \<noteq> [] \<and> list_all is_digit rest
                  else list_all is_digit s)"

definition decimal_signal :: "string option \<Rightarrow> bool" where
  "decimal_signal x = (case x of None \<Rightarrow> False | Some s \<Rightarrow> decimal_string s)"

definition prints_as_integer :: "number \<Rightarrow> bool" where
  "prints_as_integer x =
     (case x of
        Zero \<Rightarrow> True
      | Num negative s n \<Rightarrow> int (length (digits (int s))) \<le> n \<and> n \<le> 21
      | _ \<Rightarrow> False)"

definition when_present :: "('x \<Rightarrow> bool) \<Rightarrow> 'x option \<Rightarrow> bool" where
  "when_present P x = (case x of None \<Rightarrow> True | Some v \<Rightarrow> P v)"

definition decimal_inputs :: "ZKEdDSAEventTicketPCDClaim \<Rightarrow> bool" where
  "decimal_inputs c =
     (when_present prints_as_integer (timestampConsumed (partialTicket c)) \<and>
      when_present prints_as_integer (timestampSigned (partialTicket c)) \<and>
      when_present decimal_string (attendeeSemaphoreId (partialTicket c)) \<and>
      when_present decimal_string (nullifierHash c) \<and>
      when_present decimal_string (externalNullifier c) \<and>
      decimal_string (watermark c))"

section \<open>The boolean encoding\<close>

text \<open>
  Modelled from the spec: \<open>booleanToBigInt\<close> of \<open>@pcd/util\<close>, whose code is not in the
  repository; the spec gives the encoding of the boolean fields as \<open>false -> 0\<close>,
  \<open>true -> 1\<close>.
\<close>

definition booleanToBigInt_spec :: "bool \<Rightarrow> bigint" where
  "booleanToBigInt_spec b = (if b then 1 else 0)"

section \<open>Instances for evaluation\<close>

text \<open>
  One instance of the imported functions, to evaluate the encoder on concrete claims.
  \<open>hexToBigInt\<close> reads hexadecimal digits, most significant first, after an optional
  \<open>0x\<close>, and throws on anything else, as \<open>BigInt('0x' + ...)\<close> does. \<open>uuidToBigInt\<close>
  reads a string in the 8-4-4-4-12 layout of a UUID as the hexadecimal number left when
  the dashes are removed, and throws on any other string. \<open>numberToBigInt\<close> returns the
  value of an integer and throws on any other number, as \<open>BigInt(v)\<close> does. The digest
  is a stand-in that reads the bytes of the message as a number modulo \<open>2 ^ 256\<close>. The
  theorems below hold for every instance.
\<close>

definition is_hex :: "char \<Rightarrow> bool" where
  "is_hex c = (c \<in> set ''0123456789abcdefABCDEF'')"

definition hex_digit :: "char \<Rightarrow> int" where
  "hex_digit c =
     (let n = (of_char c :: int)
      in if 48 \<le> n \<and> n \<le> 57 then n - 48
         else if 97 \<le> n \<and> n \<le> 102 then n - 87
         else if 65 \<le> n \<and> n \<le> 70 then n - 55
         else 0)"

definition hex_value :: "string \<Rightarrow> bigint" where
  "hex_value s = foldl (\<lambda>a c. 16 * a + hex_digit c) 0 s"

definition read_hex :: "string \<Rightarrow> string + bigint" where
  "read_hex s =
     (let body = (if take 2 s = ''0x'' then drop 2 s else s)
      in if body \<noteq> [] \<and> list_all is_hex body then Inr (hex_value body)
         else Inl ''SyntaxError'')"

definition uuid_layout :: "string \<Rightarrow> bool" where
  "uuid_layout s =
     (map (\<lambda>c. c = CHR ''-'') s =
        map (\<lambda>c. c = CHR ''-'') ''xxxxxxxx-xxxx-xxxx-xxxx-xxxxxxxxxxxx'' \<and>
      list_all is_hex (filter (\<lambda>c. c \<noteq> CHR ''-'') s))"

definition read_uuid :: "string \<Rightarrow> string + bigint" where
  "read_uuid s =
     (if uuid_layout s then Inr (hex_value (filter (\<lambda>c. c \<noteq> CHR ''-'') s))
      else Inl ''TypeError'')"

definition read_number :: "number \<Rightarrow> string + bigint" where
  "read_number x =
     (case x of
        Zero \<Rightarrow> Inr 0
      | Num negative s n \<Rightarrow>
          (let k = int (length (digits (int s)))
           in if k \<le> n
              then Inr ((if negative then - 1 else 1) * int s * 10 ^ nat (n - k))
              else Inl ''RangeError'')
      | _ \<Rightarrow> Inl ''RangeError'')"

definition sample_util :: pcd_util where
  "sample_util =
     \<lparr> booleanToBigInt = booleanToBigInt_spec,
       hexToBigInt = read_hex,
       numberToBigInt = read_number,
       uuidToBigInt = read_uuid,
       sha256 = (\<lambda>s. word_of_int (foldl (\<lambda>a c. 256 * a + of_char c) 0 s)) \<rparr>"

definition no_ticket :: partial_ticket where
  "no_ticket =
     \<lparr> ticketId = None, eventId = None, productId = None, timestampConsumed = None,
       timestampSigned = None, attendeeSemaphoreId = None, isConsumed = None,
       isRevoked = None, ticketCategory = None, attendeeEmail = None,
       attendeeName = None \<rparr>"

text \<open>
  Concrete claims for evaluation. \<open>plain_claim\<close> discloses nothing and is signed with
  the ETHBerlin key; \<open>over_claim\<close> has 21 event ids; \<open>full_claim\<close> discloses every
  field; \<open>unsigned_claim\<close> has a signer that is not hexadecimal, and \<open>late_claim\<close> was
  consumed at the time \<open>1e21\<close>.
\<close>

definition plain_claim :: ZKEdDSAEventTicketPCDClaim where
  "plain_claim =
     \<lparr> partialTicket = no_ticket, watermark = ''255'',
       signer = (''1ebfb986fbac5113f8e2c72286fe9362f8e7d211dbc68227a468d7b919e75003'',
                 ''10ec38f11baacad5535525bbe8e343074a483c051aa1616266f3b1df3fb7d204''),
       validEventIds = None, externalNullifier = None, nullifierHash = None \<rparr>"

definition over_claim :: ZKEdDSAEventTicketPCDClaim where
  "over_claim =
     plain_claim\<lparr>validEventIds :=
       Some (replicate 21 ''53edb3e7-6733-41e0-a9be-488877c5c572'')\<rparr>"

definition full_claim :: ZKEdDSAEventTicketPCDClaim where
  "full_claim =
     \<lparr> partialTicket =
         \<lparr> ticketId = Some ''1f2a3b4c-5d6e-4f70-8a9b-0c1d2e3f4a5b'',
           eventId = Some ''53edb3e7-6733-41e0-a9be-488877c5c572'',
           productId = Some ''1f2a3b4c-5d6e-4f70-8a9b-0c1d2e3f4a5b'',
           timestampConsumed = Some Zero,
           timestampSigned = Some (Num False 17 13),
           attendeeSemaphoreId = Some ''7'',
           isConsumed = Some False, isRevoked = Some False,
           ticketCategory = Some (Num False 2 1),
           attendeeEmail = Some ''a@b.c'', attendeeName = Some ''Ada'' \<rparr>,
       watermark = ''255'',
       signer = (''1ebfb986fbac5113f8e2c72286fe9362f8e7d211dbc68227a468d7b919e75003'',
                 ''10ec38f11baacad5535525bbe8e343074a483c051aa1616266f3b1df3fb7d204''),
       validEventIds = Some [''53edb3e7-6733-41e0-a9be-488877c5c572''],
       externalNullifier = Some ''42'', nullifierHash = Some ''9'' \<rparr>"


definition late_claim :: ZKEdDSAEventTicketPCDClaim where
  "late_claim =
     plain_claim\<lparr>partialTicket := no_ticket\<lparr>timestampConsumed := Some (Num False 1 22)\<rparr>\<rparr>"

text \<open>A package whose \<open>deserialize\<close> takes the serialized input as the watermark of a
  claim signed with the ETHBerlin key, and whose \<open>verify\<close> accepts.\<close>

definition sample_package :: "(string, unit) pcd_package" where
  "sample_package =
     \<lparr> deserialize = (\<lambda>r. Inr \<lparr> pcd_claim = plain_claim\<lparr>watermark := r\<rparr>, pcd_proof = () \<rparr>),
       verify = (\<lambda>p. Inr True) \<rparr>"

section \<open>Decimal rendering\<close>

lemma digits_not_Nil: "digits n \<noteq> []"
  by (subst digits.simps) simp

lemma BigInt_toString_0: "BigInt_toString 0 = ''0''"
  by (simp add: BigInt_toString_def digits.simps digit_char_def)

lemma BigInt_toString_1: "BigInt_toString 1 = ''1''"
  by (simp add: BigInt_toString_def digits.simps digit_char_def)

lemma BABY_JUB_NEGATIVE_ONE_toString:
  "BigInt_toString BABY_JUB_NEGATIVE_ONE =
     ''21888242871839275222246405745257275088548364400416034343698204186575808495616''"
  by code_simp

lemma is_digit_digit_char: "0 \<le> d \<Longrightarrow> d < 10 \<Longrightarrow> is_digit (digit_char d)"
proof -
  assume "0 \<le> d" "d < 10"
  then have "nat d < length ''0123456789''" by simp
  then have "''0123456789'' ! nat d \<in> set ''0123456789''" by (rule nth_mem)
  then show ?thesis by (simp only: is_digit_def digit_char_def)
qed

lemma digits_all_digits: "0 \<le> n \<Longrightarrow> list_all is_digit (digits n)"
proof (induction n rule: digits.induct)
  case (1 n)
  show ?case
  proof (cases "n < 10")
    case True
    with "1.prems" show ?thesis
      by (subst digits.simps) (simp add: is_digit_digit_char)
  next
    case False
    then have "0 \<le> n div 10" by simp
    with "1.IH" False have "list_all is_digit (digits (n div 10))" by simp
    moreover have "is_digit (digit_char (n mod 10))"
      by (rule is_digit_digit_char) simp_all
    ultimately show ?thesis using False
      by (subst digits.simps) simp
  qed
qed

lemma decimal_string_all_digits: "s \<noteq> [] \<Longrightarrow> list_all is_digit s \<Longrightarrow> decimal_string s"
  by (cases s) (auto simp: decimal_string_def is_digit_def)

lemma decimal_string_BigInt_toString: "decimal_string (BigInt_toString i)"
proof (cases "i < 0")
  case True
  then have "list_all is_digit (digits (- i))" by (simp add: digits_all_digits)
  with True show ?thesis
    by (simp add: BigInt_toString_def decimal_string_def digits_not_Nil)
next
  case False
  then have "list_all is_digit (digits i)" by (simp add: digits_all_digits)
  with False show ?thesis
    by (simp add: BigInt_toString_def decimal_string_all_digits digits_not_Nil)
qed

lemma decimal_string_Number_toString:
  "prints_as_integer x \<Longrightarrow> decimal_string (Number_toString x)"
proof (cases x)
  case (Num negative s n)
  assume "prints_as_integer x"
  with Num have kn: "int (length (digits (int s))) \<le> n" "n \<le> 21"
    by (simp_all add: prints_as_integer_def)
  have d: "list_all is_digit (digits (int s))" by (simp add: digits_all_digits)
  have z: "is_digit CHR ''0''" by (simp add: is_digit_def)
  have a: "Number_toString_abs s n =
      digits (int s) @ replicate (nat (n - int (length (digits (int s))))) CHR ''0''"
    using kn by (simp add: Number_toString_abs_def Let_def)
  have all: "list_all is_digit (Number_toString_abs s n)"
    unfolding a using d z by (auto simp: list_all_iff)
  have ne: "Number_toString_abs s n \<noteq> []"
    unfolding a by (simp add: digits_not_Nil)
  show ?thesis
  proof (cases negative)
    case True
    with Num all ne show ?thesis
      by (simp add: Number_toString_def decimal_string_def)
  next
    case False
    with Num show ?thesis
      by (simp add: Number_toString_def decimal_string_all_digits [OF ne all])
  qed
qed (simp_all add: prints_as_integer_def Number_toString_def decimal_string_def is_digit_def)

lemma Number_toString_1e21: "Number_toString (Num False 1 22) = ''1e+21''"
  by (simp add: Number_toString_def Number_toString_abs_def Let_def digits.simps digit_char_def)

section \<open>Calls that may throw\<close>

lemma and_then_Inr_iff: "and_then m f = Inr v \<longleftrightarrow> (\<exists>x. m = Inr x \<and> f x = Inr v)"
  by (cases m) (simp_all add: and_then_def)


lemma and_then_Inr [simp]: "and_then (Inr x) f = f x"
  by (simp add: and_then_def)

lemma and_then_Inl [simp]: "and_then (Inl e) f = Inl e"
  by (simp add: and_then_def)

lemma toString_of_returns: "\<not> isl r \<Longrightarrow> toString_of r = Inr (BigInt_toString (projr r))"
  by (cases r) (simp_all add: toString_of_def)

lemma toString_of_throws: "isl r \<Longrightarrow> toString_of r = Inl (Thrown (projl r))"
  by (cases r) (simp_all add: toString_of_def)

section \<open>The two loops\<close>

lemma array_set_in_range:
  "i < length a \<Longrightarrow> array_set a i v = take i a @ Some v # drop (Suc i) a"
  by (simp add: array_set_def upd_conv_take_nth_drop)

lemma fill_ids_result:
  "i + length ids \<le> length a \<Longrightarrow> list_all (\<lambda>u. \<not> isl (uuidToBigInt L u)) ids \<Longrightarrow>
   fill_ids L ids i a =
     Inr (i + length ids,
          take i a @ map (\<lambda>u. Some (BigInt_toString (projr (uuidToBigInt L u)))) ids @
          drop (i + length ids) a)"
proof (induction ids arbitrary: i a)
  case Nil
  then show ?case by simp
next
  case (Cons u ids)
  then have lt: "i < length a" by simp
  let ?s = "BigInt_toString (projr (uuidToBigInt L u))"
  have len: "length (array_set a i ?s) = length a"
    using lt by (simp add: array_set_def)
  have call: "toString_of (uuidToBigInt L u) = Inr ?s"
    using Cons.prems(2) by (simp add: toString_of_returns)
  have rest: "list_all (\<lambda>u. \<not> isl (uuidToBigInt L u)) ids"
    using Cons.prems(2) by simp
  have le: "Suc i + length ids \<le> length (array_set a i ?s)"
    using Cons.prems(1) len by simp
  show ?case
    using Cons.prems(1) lt
    by (simp add: call Cons.IH [OF le rest] len)
       (simp add: array_set_in_range take_Suc_conv_app_nth add.commute)
qed

lemma fill_ids_throws:
  "\<not> list_all (\<lambda>u. \<not> isl (uuidToBigInt L u)) ids \<Longrightarrow> \<exists>what. fill_ids L ids i a = Inl (Thrown what)"
proof (induction ids arbitrary: i a)
  case Nil
  then show ?case by simp
next
  case (Cons u ids)
  show ?case
  proof (cases "isl (uuidToBigInt L u)")
    case True
    then show ?thesis by (simp add: toString_of_throws)
  next
    case False
    with Cons.prems have "\<not> list_all (\<lambda>u. \<not> isl (uuidToBigInt L u)) ids" by simp
    from Cons.IH [OF this] False show ?thesis by (simp add: toString_of_returns)
  qed
qed

lemma pad_ids_result:
  "length a = VALID_EVENT_IDS_MAX_LEN \<Longrightarrow> i \<le> VALID_EVENT_IDS_MAX_LEN \<Longrightarrow>
   pad_ids i a =
     take i a @ replicate (VALID_EVENT_IDS_MAX_LEN - i) (Some (BigInt_toString BABY_JUB_NEGATIVE_ONE))"
proof (induction i a rule: pad_ids.induct)
  case (1 i a)
  show ?case
  proof (cases "i < VALID_EVENT_IDS_MAX_LEN")
    case True
    let ?a = "array_set a i (BigInt_toString BABY_JUB_NEGATIVE_ONE)"
    have lt: "i < length a" using True "1.prems" by simp
    have len: "length ?a = VALID_EVENT_IDS_MAX_LEN"
      using lt "1.prems" by (simp add: array_set_def)
    have ih: "pad_ids (i + 1) ?a =
        take (i + 1) ?a @ replicate (VALID_EVENT_IDS_MAX_LEN - (i + 1)) (Some (BigInt_toString BABY_JUB_NEGATIVE_ONE))"
      using "1.IH" [OF True len] True by simp
    have tk: "take (i + 1) ?a = take i a @ [Some (BigInt_toString BABY_JUB_NEGATIVE_ONE)]"
      using lt by (simp add: array_set_in_range)
    have rp: "VALID_EVENT_IDS_MAX_LEN - i = Suc (VALID_EVENT_IDS_MAX_LEN - (i + 1))"
      using True by simp
    show ?thesis
      by (subst pad_ids.simps) (simp only: True if_True ih tk rp replicate_Suc append_assoc append_Cons append_Nil)
  next
    case False
    with "1.prems" have "i = VALID_EVENT_IDS_MAX_LEN" by simp
    then show ?thesis using "1.prems" by (subst pad_ids.simps) simp
  qed
qed

lemma snarkInput_returns:
  assumes le: "length (given_ids ids_arg) \<le> VALID_EVENT_IDS_MAX_LEN"
    and ok: "ids_return L ids_arg"
  shows "snarkInputForValidEventIds L ids_arg =
     Inr (map (\<lambda>u. Some (BigInt_toString (projr (uuidToBigInt L u)))) (given_ids ids_arg) @
          replicate (VALID_EVENT_IDS_MAX_LEN - length (given_ids ids_arg))
            (Some (BigInt_toString BABY_JUB_NEGATIVE_ONE)))"
proof -
  let ?ids = "given_ids ids_arg"
  let ?f = "map (\<lambda>u. Some (BigInt_toString (projr (uuidToBigInt L u)))) ?ids"
  let ?a = "?f @ drop (length ?ids) (new_Array VALID_EVENT_IDS_MAX_LEN)"
  have f: "fill_ids L ?ids 0 (new_Array VALID_EVENT_IDS_MAX_LEN) = Inr (length ?ids, ?a)"
    using le ok fill_ids_result [of 0 ?ids "new_Array VALID_EVENT_IDS_MAX_LEN" L]
    by (simp add: new_Array_def ids_return_def)
  have len: "length ?a = VALID_EVENT_IDS_MAX_LEN"
    using le by (simp add: new_Array_def)
  have p: "pad_ids (length ?ids) ?a =
      ?f @ replicate (VALID_EVENT_IDS_MAX_LEN - length ?ids) (Some (BigInt_toString BABY_JUB_NEGATIVE_ONE))"
    using pad_ids_result [OF len le] by simp
  have g: "(case ids_arg of None \<Rightarrow> [] | Some given \<Rightarrow> given) = ?ids"
    by (simp add: given_ids_def)
  show ?thesis
    using le by (simp add: snarkInputForValidEventIds_def g f p Let_def)
qed

lemma snarkInput_over:
  "VALID_EVENT_IDS_MAX_LEN < length (given_ids ids_arg) \<Longrightarrow>
   snarkInputForValidEventIds L ids_arg = Inl (CapacityExceeded (length (given_ids ids_arg)))"
  by (simp add: snarkInputForValidEventIds_def given_ids_def Let_def)

lemma snarkInput_throws:
  assumes le: "length (given_ids ids_arg) \<le> VALID_EVENT_IDS_MAX_LEN"
    and bad: "\<not> ids_return L ids_arg"
  shows "\<exists>what. snarkInputForValidEventIds L ids_arg = Inl (Thrown what)"
proof -
  from bad have "\<not> list_all (\<lambda>u. \<not> isl (uuidToBigInt L u)) (given_ids ids_arg)"
    by (simp add: ids_return_def)
  from fill_ids_throws [OF this, of 0 "new_Array VALID_EVENT_IDS_MAX_LEN"]
  obtain what where
    "fill_ids L (given_ids ids_arg) 0 (new_Array VALID_EVENT_IDS_MAX_LEN) = Inl (Thrown what)" ..
  moreover have "(case ids_arg of None \<Rightarrow> [] | Some given \<Rightarrow> given) = given_ids ids_arg"
    by (simp add: given_ids_def)
  ultimately show ?thesis
    using le by (simp add: snarkInputForValidEventIds_def Let_def)
qed

lemma snarkInput_Inr_iff:
  "(\<exists>a. snarkInputForValidEventIds L ids_arg = Inr a) \<longleftrightarrow>
     length (given_ids ids_arg) \<le> VALID_EVENT_IDS_MAX_LEN \<and> ids_return L ids_arg"
proof (cases "length (given_ids ids_arg) \<le> VALID_EVENT_IDS_MAX_LEN")
  case True
  show ?thesis
  proof (cases "ids_return L ids_arg")
    case ok: True
    from snarkInput_returns [OF True ok] True ok show ?thesis by simp
  next
    case False
    from snarkInput_throws [OF True False] True False show ?thesis by auto
  qed
next
  case False
  then have "VALID_EVENT_IDS_MAX_LEN < length (given_ids ids_arg)" by simp
  from snarkInput_over [OF this, of L] False show ?thesis by simp
qed

lemma snarkInput_length:
  assumes r: "snarkInputForValidEventIds L ids_arg = Inr a"
  shows "length a = 20"
proof -
  from r snarkInput_Inr_iff [of L ids_arg]
  have le: "length (given_ids ids_arg) \<le> VALID_EVENT_IDS_MAX_LEN" and ok: "ids_return L ids_arg"
    by blast+
  from snarkInput_returns [OF le ok] r le show ?thesis
    by (auto simp: VALID_EVENT_IDS_MAX_LEN_def)
qed


section \<open>The encoder in closed form\<close>

lemma push_each_append: "push_each ret xs = ret @ xs"
  by (induction xs arbitrary: ret) simp_all

lemma field_call_returns:
  "field_returns f x \<Longrightarrow>
   (case x of None \<Rightarrow> Inr d | Some v \<Rightarrow> toString_of (f v)) =
     Inr (case x of None \<Rightarrow> d | Some v \<Rightarrow> BigInt_toString (projr (f v)))"
  by (cases x) (simp_all add: field_returns_def toString_of_returns)

lemma field_call_throws:
  "\<not> field_returns f x \<Longrightarrow>
   \<exists>what. (case x of None \<Rightarrow> Inr d | Some v \<Rightarrow> toString_of (f v)) = Inl (Thrown what)"
  by (cases x) (simp_all add: field_returns_def toString_of_throws)

lemma publicSignalsFromClaim_tail:
  assumes h: "head_conversions_return L c"
  shows "publicSignalsFromClaim L c =
    and_then (snarkInputForValidEventIds L (validEventIds c)) (\<lambda>a. Inr
        ([Some (case ticketId (partialTicket c) of
                  None \<Rightarrow> BigInt_toString BABY_JUB_NEGATIVE_ONE
                | Some v \<Rightarrow> BigInt_toString (projr (uuidToBigInt L v))),
          Some (case eventId (partialTicket c) of
                  None \<Rightarrow> BigInt_toString BABY_JUB_NEGATIVE_ONE
                | Some v \<Rightarrow> BigInt_toString (projr (uuidToBigInt L v))),
          Some (case productId (partialTicket c) of
                  None \<Rightarrow> BigInt_toString BABY_JUB_NEGATIVE_ONE
                | Some v \<Rightarrow> BigInt_toString (projr (uuidToBigInt L v))),
          Some (case timestampConsumed (partialTicket c) of
                  None \<Rightarrow> BigInt_toString BABY_JUB_NEGATIVE_ONE
                | Some v \<Rightarrow> Number_toString v),
          Some (case timestampSigned (partialTicket c) of
                  None \<Rightarrow> BigInt_toString BABY_JUB_NEGATIVE_ONE
                | Some v \<Rightarrow> Number_toString v),
          Some (or_else (attendeeSemaphoreId (partialTicket c))
                  (BigInt_toString BABY_JUB_NEGATIVE_ONE)),
          Some (case isConsumed (partialTicket c) of
                  None \<Rightarrow> BigInt_toString BABY_JUB_NEGATIVE_ONE
                | Some v \<Rightarrow> BigInt_toString (booleanToBigInt L v)),
          Some (case isRevoked (partialTicket c) of
                  None \<Rightarrow> BigInt_toString BABY_JUB_NEGATIVE_ONE
                | Some v \<Rightarrow> BigInt_toString (booleanToBigInt L v)),
          Some (case ticketCategory (partialTicket c) of
                  None \<Rightarrow> BigInt_toString BABY_JUB_NEGATIVE_ONE
                | Some v \<Rightarrow> BigInt_toString (projr (numberToBigInt L v))),
          Some (case attendeeEmail (partialTicket c) of
                  None \<Rightarrow> BigInt_toString BABY_JUB_NEGATIVE_ONE
                | Some v \<Rightarrow> BigInt_toString (generateSnarkMessageHash L v)),
          Some (case attendeeName (partialTicket c) of
                  None \<Rightarrow> BigInt_toString BABY_JUB_NEGATIVE_ONE
                | Some v \<Rightarrow> BigInt_toString (generateSnarkMessageHash L v)),
          Some (BigInt_toString BABY_JUB_NEGATIVE_ONE),
          Some (or_else (nullifierHash c) (BigInt_toString BABY_JUB_NEGATIVE_ONE)),
          Some (BigInt_toString (projr (hexToBigInt L (fst (signer c))))),
          Some (BigInt_toString (projr (hexToBigInt L (snd (signer c)))))]
         @ a @
         [Some (if validEventIds c \<noteq> None then ''1'' else ''0''),
          Some (or_else (externalNullifier c) (BigInt_toString (STATIC_TICKET_PCD_NULLIFIER L))),
          Some (watermark c)]))"
proof -
  from h have
    f1: "field_returns (uuidToBigInt L) (ticketId (partialTicket c))" and
    f2: "field_returns (uuidToBigInt L) (eventId (partialTicket c))" and
    f3: "field_returns (uuidToBigInt L) (productId (partialTicket c))" and
    f4: "field_returns (numberToBigInt L) (ticketCategory (partialTicket c))" and
    s1: "\<not> isl (hexToBigInt L (fst (signer c)))" and
    s2: "\<not> isl (hexToBigInt L (snd (signer c)))"
    by (simp_all add: head_conversions_return_def)
  show ?thesis
    by (simp add: publicSignalsFromClaim_def Let_def push_def push_each_append
          field_call_returns [OF f1] field_call_returns [OF f2] field_call_returns [OF f3]
          field_call_returns [OF f4] toString_of_returns [OF s1] toString_of_returns [OF s2])
qed

lemma publicSignalsFromClaim_head_throws:
  assumes h: "\<not> head_conversions_return L c"
  shows "\<exists>what. publicSignalsFromClaim L c = Inl (Thrown what)"
proof -
  let ?d = "BigInt_toString BABY_JUB_NEGATIVE_ONE"
  show ?thesis
  proof (cases "field_returns (uuidToBigInt L) (ticketId (partialTicket c))")
    case False
    from field_call_throws [OF False, of "?d"] show ?thesis
      by (auto simp: publicSignalsFromClaim_def Let_def)
  next
    case f1: True
    show ?thesis
    proof (cases "field_returns (uuidToBigInt L) (eventId (partialTicket c))")
      case False
      from field_call_throws [OF False, of "?d"] show ?thesis
        by (auto simp: publicSignalsFromClaim_def Let_def field_call_returns [OF f1])
    next
      case f2: True
      show ?thesis
      proof (cases "field_returns (uuidToBigInt L) (productId (partialTicket c))")
        case False
        from field_call_throws [OF False, of "?d"] show ?thesis
          by (auto simp: publicSignalsFromClaim_def Let_def field_call_returns [OF f1]
                field_call_returns [OF f2])
      next
        case f3: True
        show ?thesis
        proof (cases "field_returns (numberToBigInt L) (ticketCategory (partialTicket c))")
          case False
          from field_call_throws [OF False, of "?d"] show ?thesis
            by (auto simp: publicSignalsFromClaim_def Let_def field_call_returns [OF f1]
                  field_call_returns [OF f2] field_call_returns [OF f3])
        next
          case f4: True
          show ?thesis
          proof (cases "isl (hexToBigInt L (fst (signer c)))")
            case True
            then show ?thesis
              by (simp add: publicSignalsFromClaim_def Let_def field_call_returns [OF f1]
                    field_call_returns [OF f2] field_call_returns [OF f3]
                    field_call_returns [OF f4] toString_of_throws)
          next
            case s1: False
            with h f1 f2 f3 f4 have "isl (hexToBigInt L (snd (signer c)))"
              by (simp add: head_conversions_return_def)
            then show ?thesis
              by (simp add: publicSignalsFromClaim_def Let_def field_call_returns [OF f1]
                    field_call_returns [OF f2] field_call_returns [OF f3]
                    field_call_returns [OF f4] toString_of_returns [OF s1] toString_of_throws)
          qed
        qed
      qed
    qed
  qed
qed

lemma publicSignalsFromClaim_Inr_iff:
  "(\<exists>v. publicSignalsFromClaim L c = Inr v) \<longleftrightarrow>
     head_conversions_return L c \<and>
     length (given_ids (validEventIds c)) \<le> VALID_EVENT_IDS_MAX_LEN \<and>
     ids_return L (validEventIds c)"
proof (cases "head_conversions_return L c")
  case True
  show ?thesis
    unfolding publicSignalsFromClaim_tail [OF True]
    using True snarkInput_Inr_iff [of L "validEventIds c"]
    by (auto simp: and_then_Inr_iff)
next
  case False
  from publicSignalsFromClaim_head_throws [OF False] False show ?thesis by auto
qed


lemma publicSignalsFromClaim_Inr_D:
  assumes r: "publicSignalsFromClaim L c = Inr v"
  shows "head_conversions_return L c"
    and "\<exists>a. snarkInputForValidEventIds L (validEventIds c) = Inr a"
proof -
  from r publicSignalsFromClaim_Inr_iff [of L c]
  show "head_conversions_return L c" by blast
  from r publicSignalsFromClaim_Inr_iff [of L c] snarkInput_Inr_iff [of L "validEventIds c"]
  show "\<exists>a. snarkInputForValidEventIds L (validEventIds c) = Inr a" by blast
qed

lemma publicSignalsFromClaim_slots:
  assumes r: "publicSignalsFromClaim L c = Inr v"
  shows "length v = 38"
    and "v ! 5 = Some (or_else (attendeeSemaphoreId (partialTicket c))
                         (BigInt_toString BABY_JUB_NEGATIVE_ONE))"
    and "v ! 6 = Some (case isConsumed (partialTicket c) of
                         None \<Rightarrow> BigInt_toString BABY_JUB_NEGATIVE_ONE
                       | Some b \<Rightarrow> BigInt_toString (booleanToBigInt L b))"
    and "v ! 7 = Some (case isRevoked (partialTicket c) of
                         None \<Rightarrow> BigInt_toString BABY_JUB_NEGATIVE_ONE
                       | Some b \<Rightarrow> BigInt_toString (booleanToBigInt L b))"
    and "v ! 12 = Some (or_else (nullifierHash c) (BigInt_toString BABY_JUB_NEGATIVE_ONE))"
    and "v ! 35 = Some (if validEventIds c \<noteq> None then ''1'' else ''0'')"
    and "v ! 36 = Some (or_else (externalNullifier c)
                          (BigInt_toString (STATIC_TICKET_PCD_NULLIFIER L)))"
    and "v ! 37 = Some (watermark c)"
proof -
  note h = publicSignalsFromClaim_Inr_D(1) [OF r]
  from publicSignalsFromClaim_Inr_D(2) [OF r]
  obtain a where a: "snarkInputForValidEventIds L (validEventIds c) = Inr a" ..
  have len: "length a = 20" by (rule snarkInput_length [OF a])
  note v = r [unfolded publicSignalsFromClaim_tail [OF h] a, simplified, symmetric]
  show "length v = 38" by (simp add: v len)
  show "v ! 5 = Some (or_else (attendeeSemaphoreId (partialTicket c))
                         (BigInt_toString BABY_JUB_NEGATIVE_ONE))"
    by (simp add: v)
  show "v ! 6 = Some (case isConsumed (partialTicket c) of
                         None \<Rightarrow> BigInt_toString BABY_JUB_NEGATIVE_ONE
                       | Some b \<Rightarrow> BigInt_toString (booleanToBigInt L b))"
    by (simp add: v)
  show "v ! 7 = Some (case isRevoked (partialTicket c) of
                         None \<Rightarrow> BigInt_toString BABY_JUB_NEGATIVE_ONE
                       | Some b \<Rightarrow> BigInt_toString (booleanToBigInt L b))"
    by (simp add: v)
  show "v ! 12 = Some (or_else (nullifierHash c) (BigInt_toString BABY_JUB_NEGATIVE_ONE))"
    by (simp add: v)
  show "v ! 35 = Some (if validEventIds c \<noteq> None then ''1'' else ''0'')"
    by (simp add: v nth_append len)
  show "v ! 36 = Some (or_else (externalNullifier c)
                          (BigInt_toString (STATIC_TICKET_PCD_NULLIFIER L)))"
    by (simp add: v nth_append len)
  show "v ! 37 = Some (watermark c)"
    by (simp add: v nth_append len)
qed

lemma map_returns:
  "map f ids = map Inr bs \<Longrightarrow>
   list_all (\<lambda>u. \<not> isl (f u)) ids \<and> map (\<lambda>u. g (projr (f u))) ids = map g bs"
proof (induction ids arbitrary: bs)
  case Nil
  then show ?case by simp
next
  case (Cons u ids)
  then obtain b bs' where bs: "bs = b # bs'" by (cases bs) auto
  with Cons.prems have u: "f u = Inr b" and rest: "map f ids = map Inr bs'" by simp_all
  from Cons.IH [OF rest] u bs show ?case by simp
qed

lemma decimal_or_else:
  "when_present decimal_string x \<Longrightarrow> decimal_string d \<Longrightarrow> decimal_string (or_else x d)"
  by (cases x) (simp_all add: when_present_def or_else_def)

lemma decimal_number_field:
  "when_present prints_as_integer x \<Longrightarrow>
   decimal_string (case x of None \<Rightarrow> BigInt_toString d | Some v \<Rightarrow> Number_toString v)"
  by (cases x)
     (simp_all add: when_present_def decimal_string_BigInt_toString decimal_string_Number_toString)

lemma decimal_bigint_field:
  "decimal_string (case x of None \<Rightarrow> BigInt_toString d | Some v \<Rightarrow> BigInt_toString (f v))"
  by (cases x) (simp_all add: decimal_string_BigInt_toString)

lemma decimal_flag: "decimal_string ''0''" "decimal_string ''1''"
  by (simp_all add: decimal_string_def is_digit_def)

section \<open>The instance on the inputs used\<close>

lemma sample_uuid_returns:
  "uuidToBigInt sample_util ''53edb3e7-6733-41e0-a9be-488877c5c572'' =
     Inr (hex_value ''53edb3e7673341e0a9be488877c5c572'')"
  "uuidToBigInt sample_util ''1f2a3b4c-5d6e-4f70-8a9b-0c1d2e3f4a5b'' =
     Inr (hex_value ''1f2a3b4c5d6e4f708a9b0c1d2e3f4a5b'')"
  by (simp_all add: sample_util_def read_uuid_def uuid_layout_def is_hex_def)

lemma sample_key_returns:
  "hexToBigInt sample_util ''1ebfb986fbac5113f8e2c72286fe9362f8e7d211dbc68227a468d7b919e75003'' =
     Inr (hex_value ''1ebfb986fbac5113f8e2c72286fe9362f8e7d211dbc68227a468d7b919e75003'')"
  "hexToBigInt sample_util ''10ec38f11baacad5535525bbe8e343074a483c051aa1616266f3b1df3fb7d204'' =
     Inr (hex_value ''10ec38f11baacad5535525bbe8e343074a483c051aa1616266f3b1df3fb7d204'')"
  by (simp_all add: sample_util_def read_hex_def is_hex_def)

lemma sample_hex_throws:
  "hexToBigInt sample_util ''not hex'' = Inl ''SyntaxError''"
  "hexToBigInt sample_util ''xyz'' = Inl ''SyntaxError''"
  by (simp_all add: sample_util_def read_hex_def is_hex_def)

lemma sample_uuid_throws: "uuidToBigInt sample_util ''1f'' = Inl ''TypeError''"
  by (simp add: sample_util_def read_uuid_def uuid_layout_def)

lemma sample_category: "\<not> isl (numberToBigInt sample_util (Num False 2 1))"
  by (simp add: sample_util_def read_number_def digits.simps)

lemma plain_claim_head:
  "head_conversions_return sample_util
     (plain_claim\<lparr>validEventIds := ids, externalNullifier := e, nullifierHash := h,
                  watermark := w\<rparr>)"
  by (simp add: head_conversions_return_def field_returns_def plain_claim_def no_ticket_def
        sample_key_returns)

lemma plain_claim_returns:
  assumes "length (given_ids ids) \<le> 20" and "ids_return sample_util ids"
  shows "publicSignalsFromClaim sample_util
       (plain_claim\<lparr>validEventIds := ids, externalNullifier := e, nullifierHash := h,
                    watermark := w\<rparr>) =
     Inr (projr (publicSignalsFromClaim sample_util
       (plain_claim\<lparr>validEventIds := ids, externalNullifier := e, nullifierHash := h,
                    watermark := w\<rparr>)))"
proof -
  let ?c = "plain_claim\<lparr>validEventIds := ids, externalNullifier := e, nullifierHash := h,
                    watermark := w\<rparr>"
  have "\<exists>v. publicSignalsFromClaim sample_util ?c = Inr v"
    unfolding publicSignalsFromClaim_Inr_iff
    using assms plain_claim_head by (simp add: VALID_EVENT_IDS_MAX_LEN_def)
  then show ?thesis by auto
qed

lemma full_claim_conditions:
  "length (given_ids (validEventIds full_claim)) \<le> 20"
  "head_conversions_return sample_util full_claim"
  "ids_return sample_util (validEventIds full_claim)"
  "decimal_inputs full_claim"
proof -
  show "length (given_ids (validEventIds full_claim)) \<le> 20"
    by (simp add: full_claim_def given_ids_def)
  show "head_conversions_return sample_util full_claim"
    by (simp add: head_conversions_return_def field_returns_def full_claim_def
          sample_uuid_returns sample_key_returns sample_category)
  show "ids_return sample_util (validEventIds full_claim)"
    by (simp add: ids_return_def given_ids_def full_claim_def sample_uuid_returns)
  show "decimal_inputs full_claim"
    by (simp add: decimal_inputs_def when_present_def prints_as_integer_def full_claim_def
          decimal_string_def is_digit_def digits.simps)
qed

section \<open>The vector of public signals\<close>

text \<open>
  C1, as the code has it. For a claim whose \<open>validEventIds\<close> is absent or has at most 20
  entries, and on whose identifiers, ticket category, signer and event ids the imported
  conversions return, \<open>publicSignalsFromClaim\<close> returns 38 signals in this order:
  ticketId, eventId, productId, timestampConsumed, timestampSigned,
  attendeeSemaphoreId, isConsumed, isRevoked, ticketCategory, the hashes of
  attendeeEmail and attendeeName, the reserved slot (always \<open>BABY_JUB_NEGATIVE_ONE\<close>),
  nullifierHash, the two halves of the signer, the 20 slots of
  \<open>snarkInputForValidEventIds\<close> at positions 15 to 34, checkValidEventIds,
  externalNullifier and the watermark. All 38 are decimal strings when the timestamps
  present are integers below \<open>10 ^ 21\<close> and the strings passed through are decimal
  strings, as field elements are.
\<close>

theorem publicSignalsFromClaim_layout:
  assumes cap: "length (given_ids (validEventIds c)) \<le> 20"
    and head: "head_conversions_return L c"
    and ids: "ids_return L (validEventIds c)"
  shows "\<exists>v a. publicSignalsFromClaim L c = Inr v \<and>
     snarkInputForValidEventIds L (validEventIds c) = Inr a \<and>
     length v = 38 \<and>
     v ! 0 = Some (case ticketId (partialTicket c) of
                     None \<Rightarrow> BigInt_toString BABY_JUB_NEGATIVE_ONE
                   | Some u \<Rightarrow> BigInt_toString (projr (uuidToBigInt L u))) \<and>
     v ! 1 = Some (case eventId (partialTicket c) of
                     None \<Rightarrow> BigInt_toString BABY_JUB_NEGATIVE_ONE
                   | Some u \<Rightarrow> BigInt_toString (projr (uuidToBigInt L u))) \<and>
     v ! 2 = Some (case productId (partialTicket c) of
                     None \<Rightarrow> BigInt_toString BABY_JUB_NEGATIVE_ONE
                   | Some u \<Rightarrow> BigInt_toString (projr (uuidToBigInt L u))) \<and>
     v ! 3 = Some (case timestampConsumed (partialTicket c) of
                     None \<Rightarrow> BigInt_toString BABY_JUB_NEGATIVE_ONE
                   | Some n \<Rightarrow> Number_toString n) \<and>
     v ! 4 = Some (case timestampSigned (partialTicket c) of
                     None \<Rightarrow> BigInt_toString BABY_JUB_NEGATIVE_ONE
                   | Some n \<Rightarrow> Number_toString n) \<and>
     v ! 5 = Some (case attendeeSemaphoreId (partialTicket c) of
                     None \<Rightarrow> BigInt_toString BABY_JUB_NEGATIVE_ONE
                   | Some s \<Rightarrow> if s = [] then BigInt_toString BABY_JUB_NEGATIVE_ONE else s) \<and>
     v ! 6 = Some (case isConsumed (partialTicket c) of
                     None \<Rightarrow> BigInt_toString BABY_JUB_NEGATIVE_ONE
                   | Some b \<Rightarrow> BigInt_toString (booleanToBigInt L b)) \<and>
     v ! 7 = Some (case isRevoked (partialTicket c) of
                     None \<Rightarrow> BigInt_toString BABY_JUB_NEGATIVE_ONE
                   | Some b \<Rightarrow> BigInt_toString (booleanToBigInt L b)) \<and>
     v ! 8 = Some (case ticketCategory (partialTicket c) of
                     None \<Rightarrow> BigInt_toString BABY_JUB_NEGATIVE_ONE
                   | Some n \<Rightarrow> BigInt_toString (projr (numberToBigInt L n))) \<and>
     v ! 9 = Some (case attendeeEmail (partialTicket c) of
                     None \<Rightarrow> BigInt_toString BABY_JUB_NEGATIVE_ONE
                   | Some s \<Rightarrow> BigInt_toString (generateSnarkMessageHash L s)) \<and>
     v ! 10 = Some (case attendeeName (partialTicket c) of
                      None \<Rightarrow> BigInt_toString BABY_JUB_NEGATIVE_ONE
                    | Some s \<Rightarrow> BigInt_toString (generateSnarkMessageHash L s)) \<and>
     v ! 11 = Some (BigInt_toString BABY_JUB_NEGATIVE_ONE) \<and>
     v ! 12 = Some (case nullifierHash c of
                      None \<Rightarrow> BigInt_toString BABY_JUB_NEGATIVE_ONE
                    | Some s \<Rightarrow> if s = [] then BigInt_toString BABY_JUB_NEGATIVE_ONE else s) \<and>
     v ! 13 = Some (BigInt_toString (projr (hexToBigInt L (fst (signer c))))) \<and>
     v ! 14 = Some (BigInt_toString (projr (hexToBigInt L (snd (signer c))))) \<and>
     take 20 (drop 15 v) = a \<and> length a = 20 \<and>
     v ! 35 = Some (if validEventIds c = None then ''0'' else ''1'') \<and>
     v ! 36 = Some (case externalNullifier c of
                      None \<Rightarrow> BigInt_toString (STATIC_TICKET_PCD_NULLIFIER L)
                    | Some s \<Rightarrow>
                        if s = [] then BigInt_toString (STATIC_TICKET_PCD_NULLIFIER L) else s) \<and>
     v ! 37 = Some (watermark c) \<and>
     (decimal_inputs c \<longrightarrow> list_all decimal_signal v)"
proof -
  from cap have le: "length (given_ids (validEventIds c)) \<le> VALID_EVENT_IDS_MAX_LEN"
    by (simp add: VALID_EVENT_IDS_MAX_LEN_def)
  have "list_all decimal_signal
      (map (\<lambda>u. Some (BigInt_toString (projr (uuidToBigInt L u))))
         (given_ids (validEventIds c)) @
       replicate (VALID_EVENT_IDS_MAX_LEN - length (given_ids (validEventIds c)))
         (Some (BigInt_toString BABY_JUB_NEGATIVE_ONE)))"
    by (auto simp: list_all_iff decimal_signal_def decimal_string_BigInt_toString)
  with snarkInput_returns [OF le ids]
  obtain a where a: "snarkInputForValidEventIds L (validEventIds c) = Inr a"
    and da: "list_all decimal_signal a"
    by blast
  have len: "length a = 20" by (rule snarkInput_length [OF a])
  have dec: "decimal_inputs c \<longrightarrow>
      decimal_string (case timestampConsumed (partialTicket c) of
                        None \<Rightarrow> BigInt_toString BABY_JUB_NEGATIVE_ONE
                      | Some n \<Rightarrow> Number_toString n) \<and>
      decimal_string (case timestampSigned (partialTicket c) of
                        None \<Rightarrow> BigInt_toString BABY_JUB_NEGATIVE_ONE
                      | Some n \<Rightarrow> Number_toString n) \<and>
      decimal_string (or_else (attendeeSemaphoreId (partialTicket c))
                        (BigInt_toString BABY_JUB_NEGATIVE_ONE)) \<and>
      decimal_string (or_else (nullifierHash c) (BigInt_toString BABY_JUB_NEGATIVE_ONE)) \<and>
      decimal_string (or_else (externalNullifier c)
                        (BigInt_toString (STATIC_TICKET_PCD_NULLIFIER L))) \<and>
      decimal_string (watermark c)"
    by (simp add: decimal_inputs_def decimal_or_else decimal_number_field
          decimal_string_BigInt_toString)
  have all: "decimal_inputs c \<longrightarrow>
      list_all decimal_signal (projr (publicSignalsFromClaim L c))"
    unfolding publicSignalsFromClaim_tail [OF head] a
    using dec da
    by (simp add: decimal_signal_def decimal_bigint_field decimal_string_BigInt_toString
          decimal_flag)
  show ?thesis
    unfolding publicSignalsFromClaim_tail [OF head] a
    using len all [unfolded publicSignalsFromClaim_tail [OF head] a]
    by (simp add: nth_append or_else_def)
qed

theorem publicSignalsFromClaim_layout_witness:
  "length (given_ids (validEventIds full_claim)) \<le> 20 \<and>
   head_conversions_return sample_util full_claim \<and>
   ids_return sample_util (validEventIds full_claim) \<and>
   decimal_inputs full_claim \<and>
   length (projr (publicSignalsFromClaim sample_util full_claim)) = 38 \<and>
   projr (publicSignalsFromClaim sample_util full_claim) ! 4 = Some ''1700000000000'' \<and>
   projr (publicSignalsFromClaim sample_util full_claim) ! 11 =
     Some (BigInt_toString BABY_JUB_NEGATIVE_ONE) \<and>
   projr (publicSignalsFromClaim sample_util full_claim) ! 35 = Some ''1'' \<and>
   projr (publicSignalsFromClaim sample_util full_claim) ! 37 = Some ''255'' \<and>
   list_all decimal_signal (projr (publicSignalsFromClaim sample_util full_claim))"
proof -
  have ts: "Number_toString (Num False 17 13) = ''1700000000000''"
    by (simp add: Number_toString_def Number_toString_abs_def Let_def digits.simps
          digit_char_def numeral_eq_Suc)
  from publicSignalsFromClaim_layout
    [OF full_claim_conditions(1) full_claim_conditions(2) full_claim_conditions(3)]
  obtain v a where v: "publicSignalsFromClaim sample_util full_claim = Inr v"
    and slots: "length v = 38"
      "v ! 4 = Some (case timestampSigned (partialTicket full_claim) of
                       None \<Rightarrow> BigInt_toString BABY_JUB_NEGATIVE_ONE
                     | Some n \<Rightarrow> Number_toString n)"
      "v ! 11 = Some (BigInt_toString BABY_JUB_NEGATIVE_ONE)"
      "v ! 35 = Some (if validEventIds full_claim = None then ''0'' else ''1'')"
      "v ! 37 = Some (watermark full_claim)"
      "decimal_inputs full_claim \<longrightarrow> list_all decimal_signal v"
    by blast
  from slots(2) have s4: "v ! 4 = Some ''1700000000000''"
    by (simp add: full_claim_def ts)
  from slots(4) have s35: "v ! 35 = Some ''1''" by (simp add: full_claim_def)
  from slots(5) have s37: "v ! 37 = Some ''255''" by (simp add: full_claim_def)
  from slots(6) full_claim_conditions(4) have d: "list_all decimal_signal v" by simp
  show ?thesis
    using full_claim_conditions v slots(1) slots(3) s4 s35 s37 d by simp
qed

text \<open>
  C1 as stated, for every claim, fails three ways: with 21 event ids the encoder raises
  the error of \<open>snarkInputForValidEventIds\<close>; with a ticketId that is not a UUID the
  conversion throws; in both cases no vector is returned. And a claim consumed at the
  time \<open>1e21\<close> gets \<open>1e+21\<close> in slot 3, which is not a decimal string.
\<close>

theorem publicSignalsFromClaim_no_decimal_vector:
  "publicSignalsFromClaim sample_util over_claim = Inl (CapacityExceeded 21) \<and>
   publicSignalsFromClaim sample_util
     (plain_claim\<lparr>partialTicket := no_ticket\<lparr>ticketId := Some ''1f''\<rparr>\<rparr>) =
     Inl (Thrown ''TypeError'') \<and>
   publicSignalsFromClaim sample_util late_claim =
     Inr (projr (publicSignalsFromClaim sample_util late_claim)) \<and>
   projr (publicSignalsFromClaim sample_util late_claim) ! 3 = Some ''1e+21'' \<and>
   \<not> decimal_string ''1e+21''"
proof -
  have h: "head_conversions_return sample_util over_claim"
    by (simp add: head_conversions_return_def field_returns_def over_claim_def plain_claim_def
          no_ticket_def sample_key_returns)
  have "snarkInputForValidEventIds sample_util (validEventIds over_claim) =
      Inl (CapacityExceeded 21)"
    using snarkInput_over [of "validEventIds over_claim" sample_util]
    by (simp add: over_claim_def given_ids_def VALID_EVENT_IDS_MAX_LEN_def)
  then have one: "publicSignalsFromClaim sample_util over_claim = Inl (CapacityExceeded 21)"
    by (simp add: publicSignalsFromClaim_tail [OF h])
  have two: "publicSignalsFromClaim sample_util
      (plain_claim\<lparr>partialTicket := no_ticket\<lparr>ticketId := Some ''1f''\<rparr>\<rparr>) =
      Inl (Thrown ''TypeError'')"
    by (simp add: publicSignalsFromClaim_def Let_def plain_claim_def no_ticket_def
          sample_uuid_throws toString_of_def)
  have hl: "head_conversions_return sample_util late_claim"
    by (simp add: head_conversions_return_def field_returns_def late_claim_def plain_claim_def
          no_ticket_def sample_key_returns)
  have "\<exists>v. publicSignalsFromClaim sample_util late_claim = Inr v"
    unfolding publicSignalsFromClaim_Inr_iff
    using hl
    by (simp add: late_claim_def plain_claim_def given_ids_def ids_return_def)
  then obtain v where v: "publicSignalsFromClaim sample_util late_claim = Inr v" ..
  have a: "snarkInputForValidEventIds sample_util (validEventIds late_claim) =
      Inr (projr (snarkInputForValidEventIds sample_util (validEventIds late_claim)))"
    using publicSignalsFromClaim_Inr_D(2) [OF v] by auto
  have three: "projr (publicSignalsFromClaim sample_util late_claim) ! 3 = Some ''1e+21''"
    by (subst publicSignalsFromClaim_tail [OF hl], subst a)
       (simp add: late_claim_def plain_claim_def no_ticket_def Number_toString_1e21
          del: One_nat_def)
  have four: "\<not> decimal_string ''1e+21''"
    by (simp add: decimal_string_def is_digit_def)
  from one two v three four show ?thesis by simp
qed

section \<open>The allowlist slots\<close>

text \<open>
  C2. For a list of at most 20 event ids, with \<open>bs\<close> the encodings \<open>uuidToBigInt\<close>
  returns for them, \<open>snarkInputForValidEventIds\<close> returns 20 entries: the decimal
  strings of \<open>bs\<close>, in the order of the ids, then \<open>BABY_JUB_NEGATIVE_ONE\<close> in every
  remaining slot. Without a list, and for the empty list, all 20 entries are
  \<open>BABY_JUB_NEGATIVE_ONE\<close>, which prints as the 77 digits below.
\<close>

theorem snarkInputForValidEventIds_pads:
  "(length ids \<le> 20 \<and> map (uuidToBigInt L) ids = map Inr bs \<longrightarrow>
      snarkInputForValidEventIds L (Some ids) =
        Inr (map (\<lambda>b. Some (BigInt_toString b)) bs @
             replicate (20 - length ids) (Some (BigInt_toString BABY_JUB_NEGATIVE_ONE))) \<and>
      length (projr (snarkInputForValidEventIds L (Some ids))) = 20) \<and>
   snarkInputForValidEventIds L None =
     Inr (replicate 20 (Some (BigInt_toString BABY_JUB_NEGATIVE_ONE))) \<and>
   snarkInputForValidEventIds L (Some []) =
     Inr (replicate 20
       (Some ''21888242871839275222246405745257275088548364400416034343698204186575808495616''))"
proof -
  have a: "length ids \<le> 20 \<and> map (uuidToBigInt L) ids = map Inr bs \<longrightarrow>
      snarkInputForValidEventIds L (Some ids) =
        Inr (map (\<lambda>b. Some (BigInt_toString b)) bs @
             replicate (20 - length ids) (Some (BigInt_toString BABY_JUB_NEGATIVE_ONE))) \<and>
      length (projr (snarkInputForValidEventIds L (Some ids))) = 20"
  proof
    assume h: "length ids \<le> 20 \<and> map (uuidToBigInt L) ids = map Inr bs"
    from h map_returns [of "uuidToBigInt L" ids bs "\<lambda>b. Some (BigInt_toString b)"]
    have ok: "ids_return L (Some ids)"
      and m: "map (\<lambda>u. Some (BigInt_toString (projr (uuidToBigInt L u)))) ids =
              map (\<lambda>b. Some (BigInt_toString b)) bs"
      by (simp_all add: ids_return_def given_ids_def)
    from h have le: "length (given_ids (Some ids)) \<le> VALID_EVENT_IDS_MAX_LEN"
      by (simp add: given_ids_def VALID_EVENT_IDS_MAX_LEN_def)
    from h have "length (map (uuidToBigInt L) ids) = length (map Inr bs :: (string + bigint) list)"
      by simp
    then have n: "length bs = length ids" by simp
    from snarkInput_returns [OF le ok] m h n
    show "snarkInputForValidEventIds L (Some ids) =
        Inr (map (\<lambda>b. Some (BigInt_toString b)) bs @
             replicate (20 - length ids) (Some (BigInt_toString BABY_JUB_NEGATIVE_ONE))) \<and>
      length (projr (snarkInputForValidEventIds L (Some ids))) = 20"
      by (simp add: given_ids_def VALID_EVENT_IDS_MAX_LEN_def)
  qed
  have b: "snarkInputForValidEventIds L None =
     Inr (replicate 20 (Some (BigInt_toString BABY_JUB_NEGATIVE_ONE)))"
    using snarkInput_returns [of None L]
    by (simp add: given_ids_def ids_return_def VALID_EVENT_IDS_MAX_LEN_def)
  have c: "snarkInputForValidEventIds L (Some []) =
     Inr (replicate 20
       (Some ''21888242871839275222246405745257275088548364400416034343698204186575808495616''))"
    using snarkInput_returns [of "Some []" L]
    by (simp add: given_ids_def ids_return_def VALID_EVENT_IDS_MAX_LEN_def
          BABY_JUB_NEGATIVE_ONE_toString)
  from a b c show ?thesis by blast
qed

theorem snarkInputForValidEventIds_pads_witness:
  "length [''53edb3e7-6733-41e0-a9be-488877c5c572'',
           ''1f2a3b4c-5d6e-4f70-8a9b-0c1d2e3f4a5b''] \<le> (20::nat) \<and>
   map (uuidToBigInt sample_util)
     [''53edb3e7-6733-41e0-a9be-488877c5c572'', ''1f2a3b4c-5d6e-4f70-8a9b-0c1d2e3f4a5b''] =
   map Inr [hex_value ''53edb3e7673341e0a9be488877c5c572'',
            hex_value ''1f2a3b4c5d6e4f708a9b0c1d2e3f4a5b''] \<and>
   snarkInputForValidEventIds sample_util
     (Some [''53edb3e7-6733-41e0-a9be-488877c5c572'',
            ''1f2a3b4c-5d6e-4f70-8a9b-0c1d2e3f4a5b'']) =
     Inr (Some (BigInt_toString (hex_value ''53edb3e7673341e0a9be488877c5c572'')) #
          Some (BigInt_toString (hex_value ''1f2a3b4c5d6e4f708a9b0c1d2e3f4a5b'')) #
          replicate 18 (Some (BigInt_toString BABY_JUB_NEGATIVE_ONE)))"
  using snarkInputForValidEventIds_pads
    [of "[''53edb3e7-6733-41e0-a9be-488877c5c572'', ''1f2a3b4c-5d6e-4f70-8a9b-0c1d2e3f4a5b'']"
        sample_util
        "[hex_value ''53edb3e7673341e0a9be488877c5c572'',
          hex_value ''1f2a3b4c5d6e4f708a9b0c1d2e3f4a5b'']"]
  by (simp add: sample_uuid_returns)

section \<open>A claim that discloses nothing\<close>

text \<open>
  C4. When every optional field of the claim is absent, every signal is
  \<open>BABY_JUB_NEGATIVE_ONE\<close> except the two halves of the signer (slots 13 and 14, the
  decimal strings of what \<open>hexToBigInt\<close> returns for them), the checkValidEventIds
  slot, which is \<open>0\<close>, the externalNullifier slot, which is the default
  \<open>STATIC_TICKET_PCD_NULLIFIER\<close>, and the watermark, passed through.
\<close>

theorem publicSignalsFromClaim_all_absent:
  assumes sx: "hexToBigInt L sx = Inr x" and sy: "hexToBigInt L sy = Inr y"
  shows "publicSignalsFromClaim L
     \<lparr> partialTicket = no_ticket, watermark = w, signer = (sx, sy),
       validEventIds = None, externalNullifier = None, nullifierHash = None \<rparr> =
   Inr (replicate 13 (Some (BigInt_toString BABY_JUB_NEGATIVE_ONE)) @
        [Some (BigInt_toString x), Some (BigInt_toString y)] @
        replicate 20 (Some (BigInt_toString BABY_JUB_NEGATIVE_ONE)) @
        [Some ''0'', Some (BigInt_toString (STATIC_TICKET_PCD_NULLIFIER L)), Some w])"
proof -
  let ?c = "\<lparr> partialTicket = no_ticket, watermark = w, signer = (sx, sy),
       validEventIds = None, externalNullifier = None, nullifierHash = None \<rparr>"
  have h: "head_conversions_return L ?c"
    by (simp add: head_conversions_return_def field_returns_def no_ticket_def sx sy)
  have a: "snarkInputForValidEventIds L (validEventIds ?c) =
      Inr (replicate 20 (Some (BigInt_toString BABY_JUB_NEGATIVE_ONE)))"
    using snarkInput_returns [of None L]
    by (simp add: given_ids_def ids_return_def VALID_EVENT_IDS_MAX_LEN_def)
  show ?thesis
    unfolding publicSignalsFromClaim_tail [OF h] a
    by (simp add: no_ticket_def or_else_def numeral_eq_Suc sx sy)
qed

theorem publicSignalsFromClaim_all_absent_witness:
  "hexToBigInt sample_util ''1ebfb986fbac5113f8e2c72286fe9362f8e7d211dbc68227a468d7b919e75003'' =
     Inr (hex_value ''1ebfb986fbac5113f8e2c72286fe9362f8e7d211dbc68227a468d7b919e75003'') \<and>
   hexToBigInt sample_util ''10ec38f11baacad5535525bbe8e343074a483c051aa1616266f3b1df3fb7d204'' =
     Inr (hex_value ''10ec38f11baacad5535525bbe8e343074a483c051aa1616266f3b1df3fb7d204'') \<and>
   publicSignalsFromClaim sample_util plain_claim =
   Inr (replicate 13 (Some (BigInt_toString BABY_JUB_NEGATIVE_ONE)) @
        [Some (BigInt_toString
           (hex_value ''1ebfb986fbac5113f8e2c72286fe9362f8e7d211dbc68227a468d7b919e75003'')),
         Some (BigInt_toString
           (hex_value ''10ec38f11baacad5535525bbe8e343074a483c051aa1616266f3b1df3fb7d204''))] @
        replicate 20 (Some (BigInt_toString BABY_JUB_NEGATIVE_ONE)) @
        [Some ''0'', Some (BigInt_toString (STATIC_TICKET_PCD_NULLIFIER sample_util)),
         Some ''255''])"
  using publicSignalsFromClaim_all_absent [OF sample_key_returns(1) sample_key_returns(2), of "''255''"]
  by (simp only: plain_claim_def sample_key_returns simp_thms)

section \<open>The message hash\<close>

text \<open>
  C5. \<open>generateSnarkMessageHash\<close> is the 256-bit digest of the message, read as an
  unsigned number and shifted right by 8 bits; it is a function of the message alone,
  and its value is at least 0 and below \<open>2 ^ 248\<close>.
\<close>

theorem generateSnarkMessageHash_range:
  "generateSnarkMessageHash L signal = uint (sha256 L signal) div 2 ^ 8 \<and>
   0 \<le> generateSnarkMessageHash L signal \<and>
   generateSnarkMessageHash L signal < 2 ^ 248"
proof -
  have d: "generateSnarkMessageHash L signal = uint (sha256 L signal) div 2 ^ 8"
    by (simp add: generateSnarkMessageHash_def drop_bit_eq_div)
  have lo: "0 \<le> uint (sha256 L signal)" by simp
  have "uint (sha256 L signal) < 2 ^ 256"
    using uint_bounded [of "sha256 L signal"] by simp
  then have "uint (sha256 L signal) \<le> 2 ^ 256 - 1" by simp
  then have "uint (sha256 L signal) div 2 ^ 8 \<le> (2 ^ 256 - 1) div 2 ^ 8"
    by (rule zdiv_mono1) simp
  also have "(2 ^ 256 - 1) div 2 ^ 8 = (2 ^ 248 - 1 :: int)" by simp
  finally have hi: "uint (sha256 L signal) div 2 ^ 8 < 2 ^ 248" by simp
  from lo have "0 \<le> uint (sha256 L signal) div 2 ^ 8"
    by (simp add: pos_imp_zdiv_nonneg_iff)
  with d hi show ?thesis by simp
qed

section \<open>Single slots\<close>

text \<open>
  C7. Whenever the encoder returns a vector, its checkValidEventIds slot (position 35)
  is \<open>1\<close> if \<open>validEventIds\<close> was given, the empty list included, and \<open>0\<close> if it was
  absent.
\<close>

theorem checkValidEventIds_slot:
  "publicSignalsFromClaim L c = Inr v \<Longrightarrow>
   v ! 35 = Some (case validEventIds c of None \<Rightarrow> ''0'' | Some ids \<Rightarrow> ''1'')"
  using publicSignalsFromClaim_slots(6) [of L c v] by (simp split: option.splits)

theorem checkValidEventIds_slot_witness:
  "publicSignalsFromClaim sample_util (plain_claim\<lparr>validEventIds := Some []\<rparr>) =
     Inr (projr (publicSignalsFromClaim sample_util (plain_claim\<lparr>validEventIds := Some []\<rparr>))) \<and>
   projr (publicSignalsFromClaim sample_util (plain_claim\<lparr>validEventIds := Some []\<rparr>)) ! 35 =
     Some ''1''"
proof -
  have r: "publicSignalsFromClaim sample_util (plain_claim\<lparr>validEventIds := Some []\<rparr>) =
      Inr (projr (publicSignalsFromClaim sample_util (plain_claim\<lparr>validEventIds := Some []\<rparr>)))"
    using plain_claim_returns [where ids = "Some []" and e = None and h = None and w = "''255''"]
    by (simp add: given_ids_def ids_return_def plain_claim_def)
  from checkValidEventIds_slot [OF r] r show ?thesis
    by (simp add: plain_claim_def)
qed

text \<open>
  C6. Whenever the encoder returns a vector, the attendeeSemaphoreId slot (position 5)
  and the nullifierHash slot (position 12) hold the field as given when it is present
  (a field-element string, which is not empty) and \<open>BABY_JUB_NEGATIVE_ONE\<close> when it is
  absent; the watermark slot (position 37) always holds the watermark as given.
\<close>

theorem passthrough_slots:
  "publicSignalsFromClaim L c = Inr v \<Longrightarrow>
   (case attendeeSemaphoreId (partialTicket c) of
      None \<Rightarrow> v ! 5 = Some (BigInt_toString BABY_JUB_NEGATIVE_ONE)
    | Some s \<Rightarrow> s \<noteq> [] \<longrightarrow> v ! 5 = Some s) \<and>
   (case nullifierHash c of
      None \<Rightarrow> v ! 12 = Some (BigInt_toString BABY_JUB_NEGATIVE_ONE)
    | Some s \<Rightarrow> s \<noteq> [] \<longrightarrow> v ! 12 = Some s) \<and>
   v ! 37 = Some (watermark c)"
  using publicSignalsFromClaim_slots(2,5,8) [of L c v]
  by (simp add: or_else_def split: option.splits)

theorem passthrough_slots_witness:
  "publicSignalsFromClaim sample_util full_claim =
     Inr (projr (publicSignalsFromClaim sample_util full_claim)) \<and>
   attendeeSemaphoreId (partialTicket full_claim) = Some ''7'' \<and>
   projr (publicSignalsFromClaim sample_util full_claim) ! 5 = Some ''7'' \<and>
   nullifierHash full_claim = Some ''9'' \<and>
   projr (publicSignalsFromClaim sample_util full_claim) ! 12 = Some ''9'' \<and>
   projr (publicSignalsFromClaim sample_util full_claim) ! 37 = Some ''255''"
proof -
  have "\<exists>v. publicSignalsFromClaim sample_util full_claim = Inr v"
    unfolding publicSignalsFromClaim_Inr_iff
    using full_claim_conditions by (simp add: VALID_EVENT_IDS_MAX_LEN_def)
  then have r: "publicSignalsFromClaim sample_util full_claim =
      Inr (projr (publicSignalsFromClaim sample_util full_claim))"
    by auto
  from passthrough_slots [OF r] r show ?thesis
    by (simp add: full_claim_def)
qed

text \<open>
  C8. The default nullifier is \<open>generateSnarkMessageHash\<close> of the fixed string, and
  whenever the encoder returns a vector its externalNullifier slot (position 36) holds
  the claim's externalNullifier when it is present (a decimal string, which is not
  empty) and the decimal string of the default when it is absent.
\<close>

theorem externalNullifier_slot:
  "STATIC_TICKET_PCD_NULLIFIER L =
     generateSnarkMessageHash L ''dummy-nullifier-for-eddsa-event-ticket-pcds'' \<and>
   (publicSignalsFromClaim L c = Inr v \<longrightarrow>
    (case externalNullifier c of
       None \<Rightarrow> v ! 36 = Some (BigInt_toString (STATIC_TICKET_PCD_NULLIFIER L))
     | Some s \<Rightarrow> s \<noteq> [] \<longrightarrow> v ! 36 = Some s))"
proof (rule conjI)
  show "STATIC_TICKET_PCD_NULLIFIER L =
      generateSnarkMessageHash L ''dummy-nullifier-for-eddsa-event-ticket-pcds''"
    by (simp add: STATIC_TICKET_PCD_NULLIFIER_def)
  show "publicSignalsFromClaim L c = Inr v \<longrightarrow>
    (case externalNullifier c of
       None \<Rightarrow> v ! 36 = Some (BigInt_toString (STATIC_TICKET_PCD_NULLIFIER L))
     | Some s \<Rightarrow> s \<noteq> [] \<longrightarrow> v ! 36 = Some s)"
    using publicSignalsFromClaim_slots(7) [of L c v]
    by (auto simp: or_else_def split: option.splits)
qed

theorem externalNullifier_slot_witness:
  "publicSignalsFromClaim sample_util (plain_claim\<lparr>externalNullifier := Some ''42''\<rparr>) =
     Inr (projr (publicSignalsFromClaim sample_util
       (plain_claim\<lparr>externalNullifier := Some ''42''\<rparr>))) \<and>
   projr (publicSignalsFromClaim sample_util
       (plain_claim\<lparr>externalNullifier := Some ''42''\<rparr>)) ! 36 = Some ''42'' \<and>
   projr (publicSignalsFromClaim sample_util plain_claim) ! 36 =
     Some (BigInt_toString (STATIC_TICKET_PCD_NULLIFIER sample_util))"
proof -
  let ?c = "plain_claim\<lparr>externalNullifier := Some ''42''\<rparr>"
  have r: "publicSignalsFromClaim sample_util ?c =
      Inr (projr (publicSignalsFromClaim sample_util ?c))"
    using plain_claim_returns [where ids = None and e = "Some ''42''" and h = None and w = "''255''"]
    by (simp add: given_ids_def ids_return_def plain_claim_def)
  have p: "publicSignalsFromClaim sample_util plain_claim =
      Inr (projr (publicSignalsFromClaim sample_util plain_claim))"
    using plain_claim_returns [where ids = None and e = None and h = None and w = "''255''"]
    by (simp add: given_ids_def ids_return_def plain_claim_def)
  from externalNullifier_slot [of sample_util ?c "projr (publicSignalsFromClaim sample_util ?c)"]
       externalNullifier_slot [of sample_util plain_claim
         "projr (publicSignalsFromClaim sample_util plain_claim)"] r p
  show ?thesis
    by (simp add: plain_claim_def)
qed

text \<open>
  C9. With \<open>booleanToBigInt\<close> as the spec gives it, the isConsumed slot (position 6) and
  the isRevoked slot (position 7) of every returned vector hold \<open>1\<close> for true, \<open>0\<close> for
  false and \<open>BABY_JUB_NEGATIVE_ONE\<close> for an absent field; a claim with isConsumed true,
  isRevoked false and nothing else disclosed gives \<open>1\<close> and \<open>0\<close> there and, in every
  other slot, what the claim that discloses nothing gives.
\<close>

theorem boolean_slots:
  assumes b: "booleanToBigInt L = booleanToBigInt_spec"
  shows "(publicSignalsFromClaim L c = Inr v \<longrightarrow>
      v ! 6 = Some (case isConsumed (partialTicket c) of
                      None \<Rightarrow> BigInt_toString BABY_JUB_NEGATIVE_ONE
                    | Some x \<Rightarrow> if x then ''1'' else ''0'') \<and>
      v ! 7 = Some (case isRevoked (partialTicket c) of
                      None \<Rightarrow> BigInt_toString BABY_JUB_NEGATIVE_ONE
                    | Some x \<Rightarrow> if x then ''1'' else ''0'')) \<and>
    (hexToBigInt L sx = Inr x \<and> hexToBigInt L sy = Inr y \<longrightarrow>
     publicSignalsFromClaim L
       \<lparr> partialTicket = no_ticket\<lparr>isConsumed := Some True, isRevoked := Some False\<rparr>,
         watermark = w, signer = (sx, sy),
         validEventIds = None, externalNullifier = None, nullifierHash = None \<rparr> =
     Inr (replicate 6 (Some (BigInt_toString BABY_JUB_NEGATIVE_ONE)) @
          [Some ''1'', Some ''0''] @
          replicate 5 (Some (BigInt_toString BABY_JUB_NEGATIVE_ONE)) @
          [Some (BigInt_toString x), Some (BigInt_toString y)] @
          replicate 20 (Some (BigInt_toString BABY_JUB_NEGATIVE_ONE)) @
          [Some ''0'', Some (BigInt_toString (STATIC_TICKET_PCD_NULLIFIER L)), Some w]))"
proof (rule conjI)
  have enc: "\<And>x. BigInt_toString (booleanToBigInt L x) = (if x then ''1'' else ''0'')"
    by (simp add: b booleanToBigInt_spec_def BigInt_toString_0 BigInt_toString_1)
  show "publicSignalsFromClaim L c = Inr v \<longrightarrow>
      v ! 6 = Some (case isConsumed (partialTicket c) of
                      None \<Rightarrow> BigInt_toString BABY_JUB_NEGATIVE_ONE
                    | Some x \<Rightarrow> if x then ''1'' else ''0'') \<and>
      v ! 7 = Some (case isRevoked (partialTicket c) of
                      None \<Rightarrow> BigInt_toString BABY_JUB_NEGATIVE_ONE
                    | Some x \<Rightarrow> if x then ''1'' else ''0'')"
    using publicSignalsFromClaim_slots(3,4) [of L c v] by (auto simp: enc split: option.splits)
  let ?c = "\<lparr> partialTicket = no_ticket\<lparr>isConsumed := Some True, isRevoked := Some False\<rparr>,
        watermark = w, signer = (sx, sy),
        validEventIds = None, externalNullifier = None, nullifierHash = None \<rparr>"
  show "hexToBigInt L sx = Inr x \<and> hexToBigInt L sy = Inr y \<longrightarrow>
     publicSignalsFromClaim L ?c =
     Inr (replicate 6 (Some (BigInt_toString BABY_JUB_NEGATIVE_ONE)) @
          [Some ''1'', Some ''0''] @
          replicate 5 (Some (BigInt_toString BABY_JUB_NEGATIVE_ONE)) @
          [Some (BigInt_toString x), Some (BigInt_toString y)] @
          replicate 20 (Some (BigInt_toString BABY_JUB_NEGATIVE_ONE)) @
          [Some ''0'', Some (BigInt_toString (STATIC_TICKET_PCD_NULLIFIER L)), Some w])"
  proof
    assume s: "hexToBigInt L sx = Inr x \<and> hexToBigInt L sy = Inr y"
    then have h: "head_conversions_return L ?c"
      by (simp add: head_conversions_return_def field_returns_def no_ticket_def)
    have a: "snarkInputForValidEventIds L (validEventIds ?c) =
        Inr (replicate 20 (Some (BigInt_toString BABY_JUB_NEGATIVE_ONE)))"
      using snarkInput_returns [of None L]
      by (simp add: given_ids_def ids_return_def VALID_EVENT_IDS_MAX_LEN_def)
    show "publicSignalsFromClaim L ?c =
     Inr (replicate 6 (Some (BigInt_toString BABY_JUB_NEGATIVE_ONE)) @
          [Some ''1'', Some ''0''] @
          replicate 5 (Some (BigInt_toString BABY_JUB_NEGATIVE_ONE)) @
          [Some (BigInt_toString x), Some (BigInt_toString y)] @
          replicate 20 (Some (BigInt_toString BABY_JUB_NEGATIVE_ONE)) @
          [Some ''0'', Some (BigInt_toString (STATIC_TICKET_PCD_NULLIFIER L)), Some w])"
      unfolding publicSignalsFromClaim_tail [OF h] a
      using s by (simp add: no_ticket_def or_else_def numeral_eq_Suc enc)
  qed
qed

theorem boolean_slots_witness:
  "booleanToBigInt sample_util = booleanToBigInt_spec \<and>
   hexToBigInt sample_util ''1ebfb986fbac5113f8e2c72286fe9362f8e7d211dbc68227a468d7b919e75003'' =
     Inr (hex_value ''1ebfb986fbac5113f8e2c72286fe9362f8e7d211dbc68227a468d7b919e75003'') \<and>
   hexToBigInt sample_util ''10ec38f11baacad5535525bbe8e343074a483c051aa1616266f3b1df3fb7d204'' =
     Inr (hex_value ''10ec38f11baacad5535525bbe8e343074a483c051aa1616266f3b1df3fb7d204'') \<and>
   publicSignalsFromClaim sample_util
      \<lparr> partialTicket = no_ticket\<lparr>isConsumed := Some True, isRevoked := Some False\<rparr>,
        watermark = ''255'',
        signer = (''1ebfb986fbac5113f8e2c72286fe9362f8e7d211dbc68227a468d7b919e75003'',
                  ''10ec38f11baacad5535525bbe8e343074a483c051aa1616266f3b1df3fb7d204''),
        validEventIds = None, externalNullifier = None, nullifierHash = None \<rparr> =
    Inr (replicate 6 (Some (BigInt_toString BABY_JUB_NEGATIVE_ONE)) @
         [Some ''1'', Some ''0''] @
         replicate 5 (Some (BigInt_toString BABY_JUB_NEGATIVE_ONE)) @
         [Some (BigInt_toString
            (hex_value ''1ebfb986fbac5113f8e2c72286fe9362f8e7d211dbc68227a468d7b919e75003'')),
          Some (BigInt_toString
            (hex_value ''10ec38f11baacad5535525bbe8e343074a483c051aa1616266f3b1df3fb7d204''))] @
         replicate 20 (Some (BigInt_toString BABY_JUB_NEGATIVE_ONE)) @
         [Some ''0'', Some (BigInt_toString (STATIC_TICKET_PCD_NULLIFIER sample_util)),
          Some ''255''])"
proof -
  have h: "booleanToBigInt sample_util = booleanToBigInt_spec"
    by (simp add: sample_util_def)
  from boolean_slots [OF h] h sample_key_returns show ?thesis by blast
qed

section \<open>Failures of the encoder\<close>




section \<open>How the frontend check settles\<close>

text \<open>
  C10, as the code has it. \<open>verifyProofFrontend\<close> resolves to \<open>true\<close> exactly when
  \<open>deserialize\<close> returns a PCD, \<open>verify\<close> returns true on it, both halves of its signer
  are the ETHBerlin key and \<open>hexToBigInt(address)\<close> returns a value whose decimal string
  is the watermark. It resolves to \<open>undefined\<close> exactly when a test fails: \<open>verify\<close>
  returns false, or the signer is another, or the watermark differs from the decimal
  string of what \<open>hexToBigInt\<close> returned. It never resolves to \<open>false\<close>. It rejects,
  with what was thrown, exactly when \<open>deserialize\<close> throws, or \<open>verify\<close> throws, or
  \<open>hexToBigInt(address)\<close> throws after the first two tests were passed.
\<close>

theorem verifyProofFrontend_settles:
  "(snd (verifyProofFrontend L P pcd_arg address) = Inr (Some True) \<longleftrightarrow>
      (\<exists>d b. deserialize P pcd_arg = Inr d \<and> verify P d = Inr True \<and>
         signer (pcd_claim d) =
           (''1ebfb986fbac5113f8e2c72286fe9362f8e7d211dbc68227a468d7b919e75003'',
            ''10ec38f11baacad5535525bbe8e343074a483c051aa1616266f3b1df3fb7d204'') \<and>
         hexToBigInt L address = Inr b \<and> watermark (pcd_claim d) = BigInt_toString b)) \<and>
   (snd (verifyProofFrontend L P pcd_arg address) = Inr None \<longleftrightarrow>
      (\<exists>d. deserialize P pcd_arg = Inr d \<and>
         (verify P d = Inr False \<or>
          verify P d = Inr True \<and>
          (signer (pcd_claim d) \<noteq>
             (''1ebfb986fbac5113f8e2c72286fe9362f8e7d211dbc68227a468d7b919e75003'',
              ''10ec38f11baacad5535525bbe8e343074a483c051aa1616266f3b1df3fb7d204'') \<or>
           (\<exists>b. hexToBigInt L address = Inr b \<and>
              watermark (pcd_claim d) \<noteq> BigInt_toString b))))) \<and>
   snd (verifyProofFrontend L P pcd_arg address) \<noteq> Inr (Some False) \<and>
   (snd (verifyProofFrontend L P pcd_arg address) = Inl (Thrown what) \<longleftrightarrow>
      deserialize P pcd_arg = Inl what \<or>
      (\<exists>d. deserialize P pcd_arg = Inr d \<and>
         (verify P d = Inl what \<or>
          verify P d = Inr True \<and>
          signer (pcd_claim d) =
            (''1ebfb986fbac5113f8e2c72286fe9362f8e7d211dbc68227a468d7b919e75003'',
             ''10ec38f11baacad5535525bbe8e343074a483c051aa1616266f3b1df3fb7d204'') \<and>
          hexToBigInt L address = Inl what))) \<and>
   snd (verifyProofFrontend L P pcd_arg address) \<noteq> Inl (Error m)"
proof (cases "deserialize P pcd_arg")
  case (Inl t)
  then show ?thesis by (simp add: verifyProofFrontend_def)
next
  case d: (Inr d)
  show ?thesis
  proof (cases "verify P d")
    case (Inl t)
    with d show ?thesis by (simp add: verifyProofFrontend_def)
  next
    case v: (Inr ok)
    show ?thesis
    proof (cases "ok \<and> isETHBerlinPublicKey (signer (pcd_claim d))")
      case False
      with d v show ?thesis
        by (auto simp: verifyProofFrontend_def isETHBerlinPublicKey_def prod_eq_iff)
    next
      case True
      then have k: "signer (pcd_claim d) =
          (''1ebfb986fbac5113f8e2c72286fe9362f8e7d211dbc68227a468d7b919e75003'',
           ''10ec38f11baacad5535525bbe8e343074a483c051aa1616266f3b1df3fb7d204'')"
        by (simp add: isETHBerlinPublicKey_def prod_eq_iff)
      show ?thesis
      proof (cases "hexToBigInt L address")
        case (Inl t)
        with d v True k show ?thesis
          by (simp add: verifyProofFrontend_def toString_of_def)
      next
        case (Inr b)
        with d v True k show ?thesis
          by (simp add: verifyProofFrontend_def toString_of_def)
      qed
    qed
  qed
qed

theorem verifyProofFrontend_settles_witness:
  "snd (verifyProofFrontend sample_util sample_package ''255'' ''0xff'') = Inr (Some True) \<and>
   snd (verifyProofFrontend sample_util sample_package ''254'' ''0xff'') = Inr None"
proof -
  have hx: "hexToBigInt sample_util ''0xff'' = Inr 255"
    by (simp add: sample_util_def read_hex_def is_hex_def hex_value_def hex_digit_def)
  have s: "BigInt_toString 255 = ''255''"
    by (simp add: BigInt_toString_def digits.simps digit_char_def)
  from verifyProofFrontend_settles [of sample_util sample_package "''255''" "''0xff''"]
       verifyProofFrontend_settles [of sample_util sample_package "''254''" "''0xff''"]
  show ?thesis
    by (simp add: hx s sample_package_def plain_claim_def)
qed

text \<open>
  C10 as stated, true or \<open>undefined\<close> and never a thrown error, fails for an address that
  is not hexadecimal: the PCD verifies and is signed by ETHBerlin, \<open>hexToBigInt\<close> throws
  and the promise rejects.
\<close>

theorem verifyProofFrontend_rejects:
  "verifyProofFrontend sample_util sample_package ''255'' ''xyz'' =
     ([], Inl (Thrown ''SyntaxError''))"
  by (simp add: verifyProofFrontend_def sample_package_def plain_claim_def
        isETHBerlinPublicKey_def sample_hex_throws toString_of_def)

end
